theory Spec2Isabelle
  imports Main
begin

section \<open>Python values\<close>

text \<open>
  The mixin of \<^verbatim>\<open>rest_framework_friendly_errors/mixins.py\<close> works on submitted
  payloads (JSON-like Python values), on message strings and on dictionaries. The values a
  payload can hold are modelled by \<open>pyval\<close>; floats are left out. A Python dictionary
  that is printed or iterated is an association list (insertion order), looked up with
  \<open>map_of\<close>; a dictionary that is only looked up is a map.
\<close>

datatype pyval =
    PNone
  | PBool bool
  | PInt int
  | PStr string
  | PList "pyval list"
  | PDict "(string \<times> pyval) list"

text \<open>
  The \<^verbatim>\<open>detail\<close> of a validation failure of the REST framework when it is not one
  message: the framework keeps a list (of messages, or of nested lists and dictionaries)
  or a dictionary from field names to details.
\<close>

datatype detail =
    DetailList "pyval list"
  | DetailDict "(string \<times> pyval) list"

text \<open>
  The exceptions of the model. \<open>ValidationError m\<close> is a validation failure of Django
  or of the REST framework that carries the message \<open>m\<close> (\<^verbatim>\<open>err.detail[0]\<close> where the
  exception has details, \<^verbatim>\<open>err.message\<close> otherwise): a failure of the REST framework
  raised with one message, whose \<^verbatim>\<open>detail\<close> is the list of that message, or a failure
  of Django raised with one message. \<open>RestValidationError d\<close> is a failure of the REST
  framework raised with the list or the dictionary \<open>d\<close>. \<open>DjangoValidationErrors\<close> is
  a failure of Django raised with a list or a dictionary of errors, which has the
  attributes \<^verbatim>\<open>error_list\<close> or \<^verbatim>\<open>error_dict\<close> and neither \<^verbatim>\<open>detail\<close> nor
  \<^verbatim>\<open>message\<close>. \<open>FormatUnmodelled\<close> is not a Python exception: it marks
  a replacement field whose syntax (attribute or index access, conversion, format
  specification) lies outside the fragment of \<^verbatim>\<open>str.format\<close> modelled below.
\<close>

datatype py_error =
    KeyError string
  | IndexError
  | ValueError string
  | TypeError
  | AttributeError string
  | ValidationError string
  | RestValidationError detail
  | DjangoValidationErrors
  | FormatUnmodelled

text \<open>\<^verbatim>\<open>type(v).__name__\<close>\<close>

fun type_name :: "pyval \<Rightarrow> string" where
  "type_name PNone = ''NoneType''"
| "type_name (PBool _) = ''bool''"
| "type_name (PInt _) = ''int''"
| "type_name (PStr _) = ''str''"
| "type_name (PList _) = ''list''"
| "type_name (PDict _) = ''dict''"

text \<open>Truth value testing, as \<^verbatim>\<open>or\<close> and \<^verbatim>\<open>not\<close> use it.\<close>

fun truthy :: "pyval \<Rightarrow> bool" where
  "truthy PNone = False"
| "truthy (PBool b) = b"
| "truthy (PInt i) = (i \<noteq> 0)"
| "truthy (PStr s) = (s \<noteq> [])"
| "truthy (PList xs) = (xs \<noteq> [])"
| "truthy (PDict kvs) = (kvs \<noteq> [])"

definition py_or :: "pyval \<Rightarrow> pyval \<Rightarrow> pyval" where
  "py_or a b = (if truthy a then a else b)"

subsection \<open>\<^verbatim>\<open>str\<close> and \<^verbatim>\<open>repr\<close>\<close>

definition digit_char :: "nat \<Rightarrow> char" where
  "digit_char d = ''0123456789'' ! d"

fun nat_digits :: "nat \<Rightarrow> string" where
  "nat_digits n =
     (if n < 10 then [digit_char n] else nat_digits (n div 10) @ [digit_char (n mod 10)])"

declare nat_digits.simps [simp del]

definition int_str :: "int \<Rightarrow> string" where
  "int_str i = (if i < 0 then CHR ''-'' # nat_digits (nat (- i)) else nat_digits (nat i))"

definition hex_char :: "nat \<Rightarrow> char" where
  "hex_char d = ''0123456789abcdef'' ! d"

text \<open>
  \<^verbatim>\<open>repr\<close> of a string: single quotes unless the string holds a single quote and no
  double quote; the backslash, the chosen quote and the control characters are escaped.
  Bytes from 128 on stand for the UTF-8 encoding of printable text and are kept.
\<close>

definition repr_char :: "char \<Rightarrow> char \<Rightarrow> string" where
  "repr_char q c =
     (if c = CHR 0x5C then [CHR 0x5C, CHR 0x5C]
      else if c = q then [CHR 0x5C, q]
      else if c = CHR 0x0A then [CHR 0x5C, CHR ''n'']
      else if c = CHR 0x0D then [CHR 0x5C, CHR ''r'']
      else if c = CHR 0x09 then [CHR 0x5C, CHR ''t'']
      else if of_char c < (32::nat) \<or> of_char c = (127::nat)
        then [CHR 0x5C, CHR ''x'', hex_char (of_char c div 16), hex_char (of_char c mod 16)]
      else [c])"

definition str_repr :: "string \<Rightarrow> string" where
  "str_repr s =
     (let q = (if CHR 0x27 \<in> set s \<and> CHR 0x22 \<notin> set s then CHR 0x22 else CHR 0x27)
      in q # concat (map (repr_char q) s) @ [q])"

fun join :: "string \<Rightarrow> string list \<Rightarrow> string" where
  "join sep [] = []"
| "join sep [x] = x"
| "join sep (x # y # ys) = x @ sep @ join sep (y # ys)"

fun py_repr :: "pyval \<Rightarrow> string" where
  "py_repr PNone = ''None''"
| "py_repr (PBool b) = (if b then ''True'' else ''False'')"
| "py_repr (PInt i) = int_str i"
| "py_repr (PStr s) = str_repr s"
| "py_repr (PList xs) = ''['' @ join '', '' (map py_repr xs) @ '']''"
| "py_repr (PDict kvs) =
     ''{'' @ join '', '' (map (\<lambda>(k, v). str_repr k @ '': '' @ py_repr v) kvs) @ ''}''"

fun py_str :: "pyval \<Rightarrow> string" where
  "py_str (PStr s) = s"
| "py_str v = py_repr v"

subsection \<open>Dictionary and container operations\<close>

text \<open>\<^verbatim>\<open>d.get(k)\<close> on a dictionary that is only looked up: a missing key gives None.\<close>

definition get :: "(string \<rightharpoonup> pyval) \<Rightarrow> string \<Rightarrow> pyval" where
  "get d k = (case d k of None \<Rightarrow> PNone | Some v \<Rightarrow> v)"

text \<open>\<^verbatim>\<open>d[k]\<close> on an ordered dictionary: a missing key raises KeyError.\<close>

definition getitem :: "(string \<times> 'a) list \<Rightarrow> string \<Rightarrow> py_error + 'a" where
  "getitem d k = (case map_of d k of None \<Rightarrow> Inl (KeyError k) | Some v \<Rightarrow> Inr v)"

text \<open>
  The three ways the mixin reads the payload \<^verbatim>\<open>self.initial_data\<close>, which is whatever
  the caller submitted: \<^verbatim>\<open>.get(name)\<close> needs a dictionary (AttributeError otherwise),
  \<^verbatim>\<open>[name]\<close> raises KeyError on a dictionary without the key and TypeError on a
  list, a string or a scalar, and \<^verbatim>\<open>name in\<close> is key membership on a dictionary,
  element membership on a list, substring search on a string and a TypeError on a scalar.
\<close>

definition dict_get :: "pyval \<Rightarrow> string \<Rightarrow> py_error + pyval" where
  "dict_get d k =
     (case d of
        PDict kvs \<Rightarrow> Inr (case map_of kvs k of None \<Rightarrow> PNone | Some v \<Rightarrow> v)
      | _ \<Rightarrow> Inl (AttributeError ''get''))"

definition subscript :: "pyval \<Rightarrow> string \<Rightarrow> py_error + pyval" where
  "subscript d k =
     (case d of
        PDict kvs \<Rightarrow> getitem kvs k
      | _ \<Rightarrow> Inl TypeError)"

fun is_substring :: "string \<Rightarrow> string \<Rightarrow> bool" where
  "is_substring s [] = (s = [])"
| "is_substring s (c # cs) = (take (length s) (c # cs) = s \<or> is_substring s cs)"

definition contains :: "pyval \<Rightarrow> string \<Rightarrow> py_error + bool" where
  "contains d k =
     (case d of
        PDict kvs \<Rightarrow> Inr (k \<in> set (map fst kvs))
      | PList xs \<Rightarrow> Inr (PStr k \<in> set xs)
      | PStr s \<Rightarrow> Inr (is_substring k s)
      | _ \<Rightarrow> Inl TypeError)"

fun py_len :: "pyval \<Rightarrow> py_error + int" where
  "py_len (PStr s) = Inr (int (length s))"
| "py_len (PList xs) = Inr (int (length xs))"
| "py_len (PDict kvs) = Inr (int (length kvs))"
| "py_len _ = Inl TypeError"

text \<open>What a \<^verbatim>\<open>for\<close> loop over a value visits.\<close>

fun iter_values :: "pyval \<Rightarrow> py_error + pyval list" where
  "iter_values (PList xs) = Inr xs"
| "iter_values (PStr s) = Inr (map (\<lambda>c. PStr [c]) s)"
| "iter_values (PDict kvs) = Inr (map (\<lambda>(k, v). PStr k) kvs)"
| "iter_values _ = Inl TypeError"

subsection \<open>\<^verbatim>\<open>template.format(**kwargs)\<close>\<close>

text \<open>
  The keyword arguments are a dictionary from names to values. The format string is read
  from left to right, as Python does, and the first error met is the one raised: a doubled
  brace is a literal brace, a single closing brace and an unclosed field are ValueErrors,
  a field with an empty or numeric name asks for a positional argument, of which the mixin
  passes none (IndexError), and a name that is not a key of the keyword arguments is a
  KeyError. The value found is rendered with \<^verbatim>\<open>str\<close>.

  \<open>get_integer\<close> is the scan that decides whether a name is a number: it reads the
  digits from the left and gives up at the first character that is no digit (the name is
  a keyword, \<open>Some None\<close>); before each digit it checks that the number read so far
  stays within \<^verbatim>\<open>PY_SSIZE_T_MAX\<close>, here that of a 64-bit build, and fails otherwise
  (\<open>None\<close>, a ValueError).
\<close>

type_synonym kwargs = "string \<Rightarrow> pyval option"

definition is_digit :: "char \<Rightarrow> bool" where
  "is_digit c = (c \<in> set ''0123456789'')"

definition PY_SSIZE_T_MAX :: nat where
  "PY_SSIZE_T_MAX = 2 ^ 63 - 1"

definition digitval :: "char \<Rightarrow> nat" where
  "digitval c = of_char c - 48"

fun get_integer :: "nat \<Rightarrow> string \<Rightarrow> nat option option" where
  "get_integer accumulator [] = Some (Some accumulator)"
| "get_integer accumulator (c # cs) =
     (if \<not> is_digit c then Some None
      else if accumulator > (PY_SSIZE_T_MAX - digitval c) div 10 then None
      else get_integer (accumulator * 10 + digitval c) cs)"

definition render_field :: "kwargs \<Rightarrow> string \<Rightarrow> py_error + string" where
  "render_field kw name =
     (if \<exists>c \<in> set name. c \<in> set ''.[!:{'' then Inl FormatUnmodelled
      else if name = [] then Inl IndexError
      else (case get_integer 0 name of
              None \<Rightarrow> Inl (ValueError ''Too many decimal digits in format string'')
            | Some (Some index) \<Rightarrow> Inl IndexError
            | Some None \<Rightarrow>
                (case kw name of None \<Rightarrow> Inl (KeyError name) | Some v \<Rightarrow> Inr (py_str v))))"

text \<open>
  \<open>py_format_from kw None cs\<close> reads literal text; \<open>py_format_from kw (Some name) cs\<close>
  is inside a replacement field of which \<open>name\<close> has been read.
\<close>

fun py_format_from :: "kwargs \<Rightarrow> string option \<Rightarrow> string \<Rightarrow> py_error + string" where
  "py_format_from kw None [] = Inr []"
| "py_format_from kw None (c # cs) =
     (if c = CHR ''{'' then
        (case cs of
           [] \<Rightarrow> Inl (ValueError ''Single '{' encountered in format string'')
         | d # ds \<Rightarrow>
             if d = CHR ''{'' then map_sum id ((#) c) (py_format_from kw None ds)
             else py_format_from kw (Some []) cs)
      else if c = CHR ''}'' then
        (case cs of
           [] \<Rightarrow> Inl (ValueError ''Single '}' encountered in format string'')
         | d # ds \<Rightarrow>
             if d = CHR ''}'' then map_sum id ((#) c) (py_format_from kw None ds)
             else Inl (ValueError ''Single '}' encountered in format string''))
      else map_sum id ((#) c) (py_format_from kw None cs))"
| "py_format_from kw (Some name) [] = Inl (ValueError ''expected '}' before end of string'')"
| "py_format_from kw (Some name) (c # cs) =
     (if c = CHR ''}'' then
        (case render_field kw name of
           Inl e \<Rightarrow> Inl e
         | Inr s \<Rightarrow> map_sum id ((@) s) (py_format_from kw None cs))
      else py_format_from kw (Some (name @ [c])) cs)"

definition py_format :: "string \<Rightarrow> kwargs \<Rightarrow> py_error + string" where
  "py_format template kw = py_format_from kw None template"

text \<open>\<^verbatim>\<open>kwargs.update({...})\<close>\<close>

definition update :: "kwargs \<Rightarrow> (string \<times> pyval) list \<Rightarrow> kwargs" where
  "update kw kvs = foldl (\<lambda>m (k, v). m(k \<mapsto> v)) kw kvs"


section \<open>Fields, validators and the serializer\<close>

text \<open>
  A validator is a callable of the calling code. \<^verbatim>\<open>_run_validator\<close> inspects the
  names of its parameters (\<open>wants_value\<close>: one is called \<^verbatim>\<open>value\<close>;
  \<open>wants_field\<close>: one is called \<^verbatim>\<open>serializer_field\<close>) and calls it. What the call
  does is \<open>v_call\<close>, a function of the submitted value it is given (None when it takes
  no value; the field it may be given is always the field that owns it): it returns, or
  it raises an exception. \<open>v_name\<close> is \<^verbatim>\<open>__name__\<close>, or the class name of a
  callable object. A validator is a function or an object without a truth value of its
  own, so \<^verbatim>\<open>if validator\<close> is true of every validator.
\<close>

datatype v_outcome = Returns | Raises py_error

record validator =
  v_name :: string
  wants_value :: bool
  wants_field :: bool
  v_call :: "pyval option \<Rightarrow> v_outcome"

text \<open>
  A field of the REST framework, with the attributes the mixin reads.
  \<open>class_name\<close> is \<^verbatim>\<open>field.__class__.__name__\<close>; \<open>error_messages\<close> is the ordered
  dictionary from constraint keys to templates; an attribute read with
  \<^verbatim>\<open>getattr(field, name, None)\<close> is None when the class does not have it;
  \<open>max_digits\<close> and \<open>decimal_places\<close> are integers or None, as the framework's
  DecimalField has them; \<open>parent_data_value\<close> is what
  \<^verbatim>\<open>field.parent.data.get(field.source, '')\<close> evaluates to, which only a file field
  reads. \<open>child_relation\<close> is the field a many-related field wraps. The attributes
  that the mixin reads without a default (\<^verbatim>\<open>min_value\<close> and \<^verbatim>\<open>max_value\<close> of a
  numeric field, \<^verbatim>\<open>max_length\<close> of a file field) exist on every class of the
  framework in those categories.
\<close>

record field_info =
  class_name :: string
  field_name :: string
  error_messages :: "(string \<times> string) list"
  validators :: "validator list"
  min_value :: pyval
  max_value :: pyval
  decimal_places :: "int option"
  max_digits :: "int option"
  max_length :: pyval
  min_length :: pyval
  slug_field :: pyval
  parent_data_value :: pyval

datatype field = Field (info: field_info) (child_relation: "field option")

text \<open>
  \<^verbatim>\<open>self.field_map\<close> comes from the class \<^verbatim>\<open>FieldMap\<close> of another module: the class
  names of each category, and for the date category the format of each class. It is a
  parameter of the model.
\<close>

record field_map =
  fm_boolean :: "string list"
  fm_string :: "string list"
  fm_numeric :: "string list"
  fm_date :: "(string \<times> string) list"
  fm_choice :: "string list"
  fm_file :: "string list"
  fm_composite :: "string list"
  fm_relation :: "string list"

text \<open>
  The tables of the module \<^verbatim>\<open>settings\<close>, also parameters: the code of each constraint
  key of each field class, of each validator name and of each non-field message, the
  template of the invalid-payload message, and the code and message of the envelope.
\<close>

record settings =
  FRIENDLY_FIELD_ERRORS :: "string \<rightharpoonup> (string \<rightharpoonup> pyval)"
  FRIENDLY_VALIDATOR_ERRORS :: "string \<rightharpoonup> pyval"
  FRIENDLY_NON_FIELD_ERRORS :: "string \<rightharpoonup> pyval"
  INVALID_DATA_MESSAGE :: string
  VALIDATION_FAILED_CODE :: pyval
  VALIDATION_FAILED_MESSAGE :: string

text \<open>An entry \<^verbatim>\<open>{'code': ..., 'field': ..., 'message': ...}\<close>.\<close>

record error_entry =
  code :: pyval
  field :: "string option"
  message :: string

text \<open>
  The output of the classification: a leaf entry, or the wrapper
  \<^verbatim>\<open>{'code': ..., 'field': ..., 'errors': ...}\<close> of \<^verbatim>\<open>wrap_nested_errors\<close> around the
  errors of one nested record (a list) or of a list of nested records (a list of lists).
\<close>

datatype pretty_entry =
    Entry error_entry
  | NestedErrors pyval string "pretty_entry list"
  | NestedListErrors pyval string "pretty_entry list list"

text \<open>The result of \<^verbatim>\<open>build_pretty_errors\<close>: the empty dictionary, or the envelope.\<close>

datatype pretty_errors =
    NoErrors
  | Envelope pyval string "pretty_entry list"

text \<open>
  The raw error map of the framework: from a field name, or from
  \<^verbatim>\<open>'non_field_errors'\<close>, to the messages, in the order of the dictionary.
\<close>

type_synonym raw_errors = "(string \<times> string list) list"

text \<open>
  What \<^verbatim>\<open>serializer.errors\<close> of a nested serializer gives
  \<^verbatim>\<open>process_sub_serializer\<close>: a dictionary, or a list of dictionaries. Of a dictionary the
  mixin reads the keys \<^verbatim>\<open>'errors'\<close> and \<^verbatim>\<open>'non_field_errors'\<close>, each present or not.
  In a dictionary that the mixin built (\<open>ErrorDict\<close>, \<open>ErrorList\<close>) the items under
  \<^verbatim>\<open>'errors'\<close> are entries. A nested serializer that does not use the mixin gives the
  raw error map of the framework (\<open>RawErrorDict\<close>), and a list serializer the list of
  the raw error maps of its children (\<open>RawErrorList\<close>); there \<^verbatim>\<open>'errors'\<close> is a key
  only if a field of the nested serializer has that name, and the items under it are
  messages. The mixin reads no other key of a raw error map.
\<close>

record error_dict =
  errors_item :: "pretty_entry list option"
  non_field_errors_item :: "string list option"

datatype sub_errors =
    ErrorDict error_dict
  | ErrorList "error_dict list"
  | RawErrorDict raw_errors
  | RawErrorList "raw_errors list"

text \<open>
  The state of a serializer instance that the methods below read: the submitted payload,
  the store of registered errors, the two class-level tables, and the methods named
  \<^verbatim>\<open>validate_<field name>\<close>, by attribute name.
\<close>

record ser_state =
  initial_data :: pyval
  registered_errors :: "string \<rightharpoonup> error_entry"
  FIELD_VALIDATION_ERRORS :: "string \<rightharpoonup> pyval"
  NON_FIELD_ERRORS :: "string \<rightharpoonup> pyval"
  methods :: "string \<rightharpoonup> validator"

text \<open>
  A serializer: its state, its fields by name, and the validation pass of the framework
  (\<^verbatim>\<open>is_valid\<close> followed by the \<^verbatim>\<open>errors\<close> of the base class), which is outside the
  mixin: from the payload it gives the raw error map, and the errors that the validators
  registered on the way, which \<^verbatim>\<open>is_valid\<close> leaves in the store. The pass is taken
  to return: \<^verbatim>\<open>is_valid\<close> turns validation failures into the raw error map.

  A field of a serializer is a plain field or a nested serializer; a nested serializer is
  a field as well. A nested serializer that uses the mixin is \<open>Friendly\<close>: its
  \<^verbatim>\<open>errors\<close> are the mixin's, computed from its own raw error map. Any other nested
  serializer (a plain serializer of the framework, a list serializer, a serializer that
  \<^verbatim>\<open>get_subclass\<close> replaces) is \<open>Opaque\<close>: its \<^verbatim>\<open>errors\<close> are a function of the
  payload it is given.
\<close>

datatype serializer =
    Serializer (state: ser_state) (fields: "(string \<times> sfield) list")
      (validation: "pyval \<Rightarrow> raw_errors \<times> (string \<times> error_entry) list")
and sfield =
    PlainField field
  | SerializerField field nested
and nested =
    Friendly serializer
  | Opaque "pyval \<Rightarrow> sub_errors"

fun the_field :: "sfield \<Rightarrow> field" where
  "the_field (PlainField f) = f"
| "the_field (SerializerField f _) = f"

section \<open>\<^verbatim>\<open>get_field_kwargs\<close>\<close>

definition int_opt :: "int option \<Rightarrow> pyval" where
  "int_opt x = (case x of None \<Rightarrow> PNone | Some i \<Rightarrow> PInt i)"

definition get_field_kwargs :: "field_map \<Rightarrow> field \<Rightarrow> pyval \<Rightarrow> py_error + kwargs" where
  "get_field_kwargs fm fld field_data =
     (let f = info fld;
          field_type = class_name f;
          kwargs = update Map.empty
            [(''data_type'', PStr (type_name field_data)),
             (''input_type'', PStr (type_name field_data))]
      in
      if field_type \<in> set (fm_boolean fm) then
        Inr (update kwargs [(''input'', field_data)])
      else if field_type \<in> set (fm_string fm) then
        Inr (update kwargs [(''max_length'', max_length f),
                            (''min_length'', min_length f),
                            (''value'', field_data)])
      else if field_type \<in> set (fm_numeric fm) then
        (let kwargs = update kwargs
               [(''min_value'', min_value f),
                (''max_value'', max_value f),
                (''decimal_places'', int_opt (decimal_places f)),
                (''max_decimal_places'', int_opt (decimal_places f)),
                (''max_digits'', int_opt (max_digits f))]
         in case (max_digits f, decimal_places f) of
              (Some md, Some dp) \<Rightarrow>
                Inr (update kwargs [(''max_whole_digits'', PInt (md - dp))])
            | _ \<Rightarrow> Inr kwargs)
      else if field_type \<in> set (map fst (fm_date fm)) then
        (case getitem (fm_date fm) field_type of
           Inl e \<Rightarrow> Inl e
         | Inr fmt \<Rightarrow> Inr (update kwargs [(''format'', PStr fmt)]))
      else if field_type \<in> set (fm_choice fm) then
        Inr (update kwargs [(''input'', field_data),
                            (''input_type'', PStr (type_name field_data))])
      else if field_type \<in> set (fm_file fm) then
        (case py_len (parent_data_value f) of
           Inl e \<Rightarrow> Inl e
         | Inr n \<Rightarrow> Inr (update kwargs [(''max_length'', max_length f), (''length'', PInt n)]))
      else if field_type \<in> set (fm_composite fm) then
        Inr (update kwargs [(''input_type'', PStr (type_name field_data)),
                            (''max_length'', max_length f),
                            (''min_length'', min_length f)])
      else if field_type \<in> set (fm_relation fm) then
        Inr (update kwargs [(''pk_value'', field_data),
                            (''data_type'', PStr (type_name field_data)),
                            (''input_type'', PStr (type_name field_data)),
                            (''slug_name'', slug_field f),
                            (''value'', field_data)])
      else Inr (update kwargs [(''max_length'', max_length f)]))"

section \<open>\<^verbatim>\<open>does_not_exist_many_to_many_handler\<close> and \<^verbatim>\<open>find_key\<close>\<close>

text \<open>
  The handler binds \<^verbatim>\<open>new_kwargs = kwargs\<close>, which is the same dictionary object, and
  assigns \<^verbatim>\<open>new_kwargs['value']\<close> in its loop. The model therefore returns the
  dictionary as the handler leaves it, next to the handler's result, and the caller goes
  on with that dictionary.
\<close>

fun dne_loop ::
  "string \<Rightarrow> string \<Rightarrow> kwargs \<Rightarrow> pyval list \<Rightarrow> py_error + (bool \<times> kwargs)" where
  "dne_loop unformatted msg new_kwargs [] = Inr (False, new_kwargs)"
| "dne_loop unformatted msg new_kwargs (v # vs) =
     (let new_kwargs = new_kwargs(''value'' \<mapsto> v) in
      case py_format unformatted new_kwargs of
        Inl e \<Rightarrow> Inl e
      | Inr s \<Rightarrow> if s = msg then Inr (True, new_kwargs)
                 else dne_loop unformatted msg new_kwargs vs)"

definition does_not_exist_many_to_many_handler ::
  "field \<Rightarrow> string \<Rightarrow> kwargs \<Rightarrow> py_error + (bool \<times> kwargs)" where
  "does_not_exist_many_to_many_handler fld msg kwargs =
     (case getitem (error_messages (info fld)) ''does_not_exist'' of
        Inl e \<Rightarrow> Inl e
      | Inr unformatted \<Rightarrow>
          (case kwargs ''value'' of
             None \<Rightarrow> Inl (KeyError ''value'')
           | Some vs \<Rightarrow>
               (case iter_values vs of
                  Inl e \<Rightarrow> Inl e
                | Inr values \<Rightarrow> dne_loop unformatted msg kwargs values)))"

text \<open>\<^verbatim>\<open>isinstance(kwargs.get('value'), list)\<close>\<close>

definition is_list :: "pyval option \<Rightarrow> bool" where
  "is_list v = (case v of Some (PList _) \<Rightarrow> True | _ \<Rightarrow> False)"

text \<open>
  The loop of \<^verbatim>\<open>find_key\<close> over the keys of \<^verbatim>\<open>field.error_messages\<close> that are left
  to visit, with the keyword arguments as they are at that point.
\<close>

fun find_key_loop ::
  "field \<Rightarrow> string \<Rightarrow> kwargs \<Rightarrow> string list \<Rightarrow> py_error + string option" where
  "find_key_loop fld msg kwargs [] = Inr None"
| "find_key_loop fld msg kwargs (key # keys) =
     (case (if key = ''does_not_exist'' \<and> is_list (kwargs ''value'')
            then does_not_exist_many_to_many_handler fld msg kwargs
            else Inr (False, kwargs)) of
        Inl e \<Rightarrow> Inl e
      | Inr (True, _) \<Rightarrow> Inr (Some key)
      | Inr (False, kwargs) \<Rightarrow>
          (case getitem (error_messages (info fld)) key of
             Inl e \<Rightarrow> Inl e
           | Inr unformatted \<Rightarrow>
               (case py_format unformatted kwargs of
                  Inl e \<Rightarrow> Inl e
                | Inr s \<Rightarrow> if s = msg then Inr (Some key)
                           else find_key_loop fld msg kwargs keys)))"

fun find_key ::
  "field_map \<Rightarrow> serializer \<Rightarrow> field \<Rightarrow> string \<Rightarrow> string \<Rightarrow> py_error + string option" where
  "find_key fm self (Field f child) msg fname =
     (case dict_get (initial_data (state self)) fname of
        Inl e \<Rightarrow> Inl e
      | Inr field_data \<Rightarrow>
          (case get_field_kwargs fm (Field f child) field_data of
             Inl e \<Rightarrow> Inl e
           | Inr kwargs \<Rightarrow>
               (case find_key_loop (Field f child) msg kwargs
                       (map fst (error_messages f)) of
                  Inl e \<Rightarrow> Inl e
                | Inr (Some key) \<Rightarrow> Inr (Some key)
                | Inr None \<Rightarrow>
                    (case child of
                       None \<Rightarrow> Inr None
                     | Some c \<Rightarrow> find_key fm self c msg fname))))"


section \<open>\<^verbatim>\<open>_run_validator\<close> and \<^verbatim>\<open>find_validator\<close>\<close>

text \<open>
  \<^verbatim>\<open>err.detail[0] if hasattr(err, 'detail') else err.message\<close>, for an exception
  that the \<^verbatim>\<open>except\<close> clause of \<^verbatim>\<open>_run_validator\<close> catches; the result is None for
  an exception that the clause does not catch. The expression is evaluated inside the
  handler, with nothing around it: an empty list of details has no first element
  (IndexError), a dictionary of details has no key 0 (KeyError), and a failure of Django
  that holds a list or a dictionary of errors has no attribute \<^verbatim>\<open>message\<close>
  (AttributeError).
\<close>

fun err_message :: "py_error \<Rightarrow> (py_error + pyval) option" where
  "err_message (ValidationError m) = Some (Inr (PStr m))"
| "err_message (RestValidationError (DetailList [])) = Some (Inl IndexError)"
| "err_message (RestValidationError (DetailList (x # xs))) = Some (Inr x)"
| "err_message (RestValidationError (DetailDict kvs)) = Some (Inl (KeyError ''0''))"
| "err_message DjangoValidationErrors = Some (Inl (AttributeError ''message''))"
| "err_message e = None"

text \<open>
  \<^verbatim>\<open>_run_validator\<close> catches the validation failures of Django and of the REST
  framework and nothing else; without a failure it falls off its end and returns None,
  which its callers test for truth. The lookup of the submitted value stands inside the
  \<^verbatim>\<open>try\<close>, and its KeyError is not caught either.
\<close>

definition run_validator :: "serializer \<Rightarrow> validator \<Rightarrow> field \<Rightarrow> string \<Rightarrow> py_error + bool" where
  "run_validator self v fld msg =
     (case (if wants_value v
            then map_sum id Some (subscript (initial_data (state self)) (field_name (info fld)))
            else Inr None) of
        Inl e \<Rightarrow> Inl e
      | Inr arg \<Rightarrow>
          (case v_call v arg of
             Returns \<Rightarrow> Inr False
           | Raises err \<Rightarrow>
               (case err_message err of
                  None \<Rightarrow> Inl err
                | Some (Inl e) \<Rightarrow> Inl e
                | Some (Inr m) \<Rightarrow> Inr (m = PStr msg))))"

fun find_validator_loop ::
  "serializer \<Rightarrow> field \<Rightarrow> string \<Rightarrow> validator list \<Rightarrow> py_error + validator option" where
  "find_validator_loop self fld msg [] = Inr None"
| "find_validator_loop self fld msg (v # vs) =
     (case run_validator self v fld msg of
        Inl e \<Rightarrow> Inl e
      | Inr True \<Rightarrow> Inr (Some v)
      | Inr False \<Rightarrow> find_validator_loop self fld msg vs)"

definition find_validator :: "serializer \<Rightarrow> field \<Rightarrow> string \<Rightarrow> py_error + validator option" where
  "find_validator self fld msg = find_validator_loop self fld msg (validators (info fld))"

section \<open>The entry builders\<close>

text \<open>
  \<^verbatim>\<open>self.FIELD_VALIDATION_ERRORS.get(name) or settings.FRIENDLY_VALIDATOR_ERRORS.get(name)\<close>
\<close>

definition validator_code :: "settings \<Rightarrow> serializer \<Rightarrow> string \<Rightarrow> pyval" where
  "validator_code S self name =
     py_or (get (FIELD_VALIDATION_ERRORS (state self)) name)
           (get (FRIENDLY_VALIDATOR_ERRORS S) name)"

text \<open>
  \<^verbatim>\<open>settings.FRIENDLY_FIELD_ERRORS.get(field_type, {}).get(key)\<close>, where \<open>key\<close> is a
  constraint key or None; the tables have no key None.
\<close>

definition field_code :: "settings \<Rightarrow> string \<Rightarrow> string option \<Rightarrow> pyval" where
  "field_code S field_type key =
     (case FRIENDLY_FIELD_ERRORS S field_type of
        None \<Rightarrow> PNone
      | Some d \<Rightarrow> (case key of None \<Rightarrow> PNone | Some k \<Rightarrow> get d k))"

text \<open>\<^verbatim>\<open>not key\<close>: None and the empty string are false.\<close>

definition not_key :: "string option \<Rightarrow> bool" where
  "not_key key = (case key of None \<Rightarrow> True | Some k \<Rightarrow> k = [])"

definition get_field_error_entry ::
  "settings \<Rightarrow> field_map \<Rightarrow> serializer \<Rightarrow> string \<Rightarrow> field \<Rightarrow> py_error + error_entry" where
  "get_field_error_entry S fm self error fld =
     (case registered_errors (state self) error of
        Some e \<Rightarrow> Inr e
      | None \<Rightarrow>
          (let field_type = class_name (info fld) in
           case find_key fm self fld error (field_name (info fld)) of
             Inl e \<Rightarrow> Inl e
           | Inr key \<Rightarrow>
               (let last_return =
                      Inr \<lparr>code = field_code S field_type key,
                           field = Some (field_name (info fld)),
                           message = error\<rparr>
                in
                if not_key key then
                  (case find_validator self fld error of
                     Inl e \<Rightarrow> Inl e
                   | Inr (Some v) \<Rightarrow>
                       Inr \<lparr>code = validator_code S self (v_name v),
                            field = Some (field_name (info fld)),
                            message = error\<rparr>
                   | Inr None \<Rightarrow>
                       (case methods (state self) (''validate_'' @ field_name (info fld)) of
                          None \<Rightarrow> last_return
                        | Some v \<Rightarrow>
                            (case run_validator self v fld error of
                               Inl e \<Rightarrow> Inl e
                             | Inr True \<Rightarrow>
                                 Inr \<lparr>code = validator_code S self (v_name v),
                                      field = Some (field_name (info fld)),
                                      message = error\<rparr>
                             | Inr False \<Rightarrow> last_return)))
                else last_return)))"

text \<open>A list comprehension: the results in order, or the first exception.\<close>

fun traverse :: "('a \<Rightarrow> py_error + 'b) \<Rightarrow> 'a list \<Rightarrow> py_error + 'b list" where
  "traverse f [] = Inr []"
| "traverse f (x # xs) =
     (case f x of
        Inl e \<Rightarrow> Inl e
      | Inr y \<Rightarrow> (case traverse f xs of Inl e \<Rightarrow> Inl e | Inr ys \<Rightarrow> Inr (y # ys)))"

definition get_field_error_entries ::
  "settings \<Rightarrow> field_map \<Rightarrow> serializer \<Rightarrow> string list \<Rightarrow> field \<Rightarrow> py_error + error_entry list" where
  "get_field_error_entries S fm self errors fld =
     traverse (\<lambda>error. get_field_error_entry S fm self error fld) errors"

definition get_non_field_error_entry ::
  "settings \<Rightarrow> serializer \<Rightarrow> string \<Rightarrow> py_error + error_entry" where
  "get_non_field_error_entry S self error =
     (case registered_errors (state self) error of
        Some e \<Rightarrow> Inr e
      | None \<Rightarrow>
          (case py_format (INVALID_DATA_MESSAGE S)
                  [''data_type'' \<mapsto> PStr (type_name (initial_data (state self)))] of
             Inl e \<Rightarrow> Inl e
           | Inr s \<Rightarrow>
               if s = error then
                 Inr \<lparr>code = get (FRIENDLY_NON_FIELD_ERRORS S) ''invalid'',
                      field = None, message = error\<rparr>
               else
                 Inr \<lparr>code = py_or (get (NON_FIELD_ERRORS (state self)) error)
                                   (get (FRIENDLY_NON_FIELD_ERRORS S) error),
                      field = None, message = error\<rparr>))"

definition get_non_field_error_entries ::
  "settings \<Rightarrow> serializer \<Rightarrow> string list \<Rightarrow> py_error + error_entry list" where
  "get_non_field_error_entries S self errors =
     traverse (get_non_field_error_entry S self) errors"

section \<open>\<^verbatim>\<open>register_error\<close>\<close>

text \<open>
  \<^verbatim>\<open>register_error\<close> never returns: it raises a ValueError, or it stores the entry and
  raises the validation failure that carries the key. The model gives the serializer as
  the call leaves it, and the exception.
\<close>

definition composite_key :: "string \<Rightarrow> pyval \<Rightarrow> string option \<Rightarrow> string" where
  "composite_key error_message error_code fname =
     error_message @ ''_'' @ py_str error_code @ ''_'' @
     (case fname of None \<Rightarrow> ''None'' | Some n \<Rightarrow> n)"

definition store_and_raise ::
  "serializer \<Rightarrow> string \<Rightarrow> pyval \<Rightarrow> string option \<Rightarrow> serializer \<times> py_error" where
  "store_and_raise self error_message error_code fname =
     (let error = \<lparr>code = error_code, field = fname, message = error_message\<rparr>;
          key = composite_key error_message error_code fname
      in (Serializer
            ((state self)\<lparr>registered_errors := (registered_errors (state self))(key \<mapsto> error)\<rparr>)
            (fields self) (validation self),
          ValidationError key))"

definition register_error ::
  "settings \<Rightarrow> serializer \<Rightarrow> string \<Rightarrow> string option \<Rightarrow> string option \<Rightarrow> pyval
     \<Rightarrow> serializer \<times> py_error" where
  "register_error S self error_message fname error_key error_code =
     (case fname of
        None \<Rightarrow>
          if error_code = PNone then
            (self, ValueError ''For non field error you must provide an error code'')
          else store_and_raise self error_message error_code None
      | Some name \<Rightarrow>
          (case map_of (fields self) name of
             None \<Rightarrow> (self, ValueError ''Incorrect field name'')
           | Some field_instance \<Rightarrow>
               (let field_type = class_name (info (the_field field_instance)) in
                if error_key = None \<and> error_code = PNone then
                  (self, ValueError ''You have to provide either error key or error code'')
                else if error_code \<noteq> PNone then
                  store_and_raise self error_message error_code (Some name)
                else
                  (case FRIENDLY_FIELD_ERRORS S field_type of
                     None \<Rightarrow> (self, ValueError (''Unknown field type: '' @ [CHR 0x22] @ field_type @ [CHR 0x22]))
                   | Some d \<Rightarrow>
                       (let error_code = (case error_key of None \<Rightarrow> PNone | Some k \<Rightarrow> get d k)
                        in
                        if error_code = PNone then
                          (self, ValueError
                             (''Unknown error key: '' @ [CHR 0x22] @
                              (case error_key of None \<Rightarrow> ''None'' | Some k \<Rightarrow> k) @
                              [CHR 0x22] @ '' for field type: '' @
                              [CHR 0x22] @ field_type @ [CHR 0x22]))
                        else store_and_raise self error_message error_code (Some name))))))"


section \<open>Nested serializers and \<^verbatim>\<open>build_pretty_errors\<close>\<close>

definition wrap_nested_errors ::
  "pyval \<Rightarrow> pretty_entry list + pretty_entry list list \<Rightarrow> string \<Rightarrow> pretty_entry" where
  "wrap_nested_errors c errors fname =
     (case errors of
        Inl es \<Rightarrow> NestedErrors c fname es
      | Inr ess \<Rightarrow> NestedListErrors c fname ess)"

text \<open>
  The envelope at the end of \<^verbatim>\<open>build_pretty_errors\<close>, and the dictionary it is when a
  parent reads it as the \<^verbatim>\<open>errors\<close> of a nested serializer.
\<close>

definition envelope :: "settings \<Rightarrow> pretty_entry list \<Rightarrow> pretty_errors" where
  "envelope S pretty =
     (if pretty \<noteq> [] then Envelope (VALIDATION_FAILED_CODE S) (VALIDATION_FAILED_MESSAGE S) pretty
      else NoErrors)"

fun as_error_dict :: "pretty_errors \<Rightarrow> error_dict" where
  "as_error_dict NoErrors = \<lparr>errors_item = None, non_field_errors_item = None\<rparr>"
| "as_error_dict (Envelope c m es) = \<lparr>errors_item = Some es, non_field_errors_item = None\<rparr>"

text \<open>
  \<^verbatim>\<open>serializer.initial_data = ...\<close> followed by \<^verbatim>\<open>serializer.is_valid()\<close>: the nested
  serializer with the payload assigned and with the errors its validators registered.
\<close>

definition validated :: "serializer \<Rightarrow> pyval \<Rightarrow> serializer" where
  "validated s d =
     Serializer
       ((state s)\<lparr>initial_data := d,
                  registered_errors :=
                    foldl (\<lambda>m (k, e). m(k \<mapsto> e)) (registered_errors (state s))
                      (snd (validation s d))\<rparr>)
       (fields s) (validation s)"

text \<open>
  The loop of \<^verbatim>\<open>process_sub_serializer_errors\<close> over the entries under \<^verbatim>\<open>'errors'\<close>.
  Every entry the mixin builds has the key \<^verbatim>\<open>'field'\<close>; a wrapper's is the name it was
  wrapped under, never None.
\<close>

fun default_field :: "string \<Rightarrow> pretty_entry \<Rightarrow> pretty_entry" where
  "default_field error_type (Entry e) =
     Entry (if field e = None then e\<lparr>field := Some error_type\<rparr> else e)"
| "default_field error_type sub_error = sub_error"

fun sub_errors_loop :: "string \<Rightarrow> pretty_entry list \<Rightarrow> pretty_entry list \<Rightarrow> pretty_entry list" where
  "sub_errors_loop error_type result [] = result"
| "sub_errors_loop error_type result (sub_error # rest) =
     sub_errors_loop error_type (result @ [default_field error_type sub_error]) rest"

definition process_sub_serializer_errors ::
  "settings \<Rightarrow> serializer \<Rightarrow> error_dict \<Rightarrow> string \<Rightarrow> py_error + pretty_entry list" where
  "process_sub_serializer_errors S self serializer_error_dict error_type =
     (let sub_serializer_errors =
            (case errors_item serializer_error_dict of None \<Rightarrow> [] | Some es \<Rightarrow> es);
          result = sub_errors_loop error_type [] sub_serializer_errors
      in case non_field_errors_item serializer_error_dict of
           None \<Rightarrow> Inr result
         | Some sub_serializer_non_field_errors \<Rightarrow>
             (case get_non_field_error_entries S self sub_serializer_non_field_errors of
                Inl e \<Rightarrow> Inl e
              | Inr es \<Rightarrow> Inr (result @ map Entry es)))"

text \<open>
  The same method on a raw error map. An item under \<^verbatim>\<open>'errors'\<close> is a message there,
  and \<^verbatim>\<open>sub_error['field']\<close> on a string raises TypeError in the first round of the
  loop; without such an item the result is what the non-field builder makes of the
  messages under \<^verbatim>\<open>'non_field_errors'\<close>.
\<close>

definition process_raw_sub_serializer_errors ::
  "settings \<Rightarrow> serializer \<Rightarrow> raw_errors \<Rightarrow> string \<Rightarrow> py_error + pretty_entry list" where
  "process_raw_sub_serializer_errors S self serializer_error_dict error_type =
     (let sub_serializer_errors =
            (case map_of serializer_error_dict ''errors'' of None \<Rightarrow> [] | Some ms \<Rightarrow> ms)
      in if sub_serializer_errors \<noteq> [] then Inl TypeError
         else
           (case map_of serializer_error_dict ''non_field_errors'' of
              None \<Rightarrow> Inr []
            | Some sub_serializer_non_field_errors \<Rightarrow>
                (case get_non_field_error_entries S self sub_serializer_non_field_errors of
                   Inl e \<Rightarrow> Inl e
                 | Inr es \<Rightarrow> Inr (map Entry es))))"

text \<open>
  The body of \<^verbatim>\<open>process_sub_serializer\<close> after its first line, given what
  \<^verbatim>\<open>get_sub_serializer_errors\<close> returned or raised.
\<close>

definition wrap_sub_serializer_errors ::
  "settings \<Rightarrow> serializer \<Rightarrow> pretty_entry list \<Rightarrow> py_error + sub_errors \<Rightarrow> string
     \<Rightarrow> py_error + pretty_entry list" where
  "wrap_sub_serializer_errors S self pretty sub_serializer_result error_type =
     (case sub_serializer_result of
        Inl e \<Rightarrow> Inl e
      | Inr (ErrorList field_errors) \<Rightarrow>
          (case traverse (\<lambda>inner_field_errors.
                   process_sub_serializer_errors S self inner_field_errors error_type)
                  field_errors of
             Inl e \<Rightarrow> Inl e
           | Inr list_errors \<Rightarrow>
               Inr (pretty @ [wrap_nested_errors (PInt 2902) (Inr list_errors) error_type]))
      | Inr (RawErrorList field_errors) \<Rightarrow>
          (case traverse (\<lambda>inner_field_errors.
                   process_raw_sub_serializer_errors S self inner_field_errors error_type)
                  field_errors of
             Inl e \<Rightarrow> Inl e
           | Inr list_errors \<Rightarrow>
               Inr (pretty @ [wrap_nested_errors (PInt 2902) (Inr list_errors) error_type]))
      | Inr (ErrorDict field_errors) \<Rightarrow>
          (case process_sub_serializer_errors S self field_errors error_type of
             Inl e \<Rightarrow> Inl e
           | Inr sub_serializer_errors \<Rightarrow>
               Inr (pretty @
                    [wrap_nested_errors (PInt 2901) (Inl sub_serializer_errors) error_type]))
      | Inr (RawErrorDict field_errors) \<Rightarrow>
          (case process_raw_sub_serializer_errors S self field_errors error_type of
             Inl e \<Rightarrow> Inl e
           | Inr sub_serializer_errors \<Rightarrow>
               Inr (pretty @
                    [wrap_nested_errors (PInt 2901) (Inl sub_serializer_errors) error_type])))"

text \<open>
  \<^verbatim>\<open>get_sub_serializer_errors\<close> and the loop of \<^verbatim>\<open>build_pretty_errors\<close> call each
  other through the \<^verbatim>\<open>errors\<close> of a nested serializer that uses the mixin; the
  recursion ends because a nested serializer is a field of its parent. The loop visits
  the keys of the raw error map that are left, with the list \<^verbatim>\<open>pretty\<close> built so far.
\<close>

function (sequential)
  get_sub_serializer_errors ::
    "settings \<Rightarrow> field_map \<Rightarrow> serializer \<Rightarrow> nested \<Rightarrow> string \<Rightarrow> py_error + sub_errors"
and build_pretty_errors_loop ::
    "settings \<Rightarrow> field_map \<Rightarrow> serializer \<Rightarrow> raw_errors \<Rightarrow> pretty_entry list \<Rightarrow> string list
       \<Rightarrow> py_error + pretty_entry list"
where
  "get_sub_serializer_errors S fm self sub error_type =
     (case dict_get (initial_data (state self)) error_type of
        Inl e \<Rightarrow> Inl e
      | Inr d \<Rightarrow>
          (case sub of
             Opaque errors_of \<Rightarrow> Inr (errors_of d)
           | Friendly s \<Rightarrow>
               (let ugly_errors = fst (validation s d) in
                case build_pretty_errors_loop S fm (validated s d) ugly_errors []
                       (map fst ugly_errors) of
                  Inl e \<Rightarrow> Inl e
                | Inr pretty \<Rightarrow> Inr (ErrorDict (as_error_dict (envelope S pretty))))))"
| "build_pretty_errors_loop S fm self errors pretty [] = Inr pretty"
| "build_pretty_errors_loop S fm self errors pretty (error_type # rest) =
     (if error_type = ''non_field_errors'' then
        (case getitem errors error_type of
           Inl e \<Rightarrow> Inl e
         | Inr msgs \<Rightarrow>
             (case get_non_field_error_entries S self msgs of
                Inl e \<Rightarrow> Inl e
              | Inr es \<Rightarrow> build_pretty_errors_loop S fm self errors (pretty @ map Entry es) rest))
      else
        (case getitem (fields self) error_type of
           Inl e \<Rightarrow> Inl e
         | Inr fld \<Rightarrow>
             (case (case fld of
                      PlainField f \<Rightarrow> Inr None
                    | SerializerField f sub \<Rightarrow>
                        (case contains (initial_data (state self)) error_type of
                           Inl e \<Rightarrow> Inl e
                         | Inr True \<Rightarrow>
                             map_sum id Some
                               (wrap_sub_serializer_errors S self pretty
                                  (get_sub_serializer_errors S fm self sub error_type)
                                  error_type)
                         | Inr False \<Rightarrow> Inr None)) of
                Inl e \<Rightarrow> Inl e
              | Inr (Some pretty) \<Rightarrow> build_pretty_errors_loop S fm self errors pretty rest
              | Inr None \<Rightarrow>
                  (case getitem errors error_type of
                     Inl e \<Rightarrow> Inl e
                   | Inr msgs \<Rightarrow>
                       (case get_field_error_entries S fm self msgs (the_field fld) of
                          Inl e \<Rightarrow> Inl e
                        | Inr es \<Rightarrow>
                            build_pretty_errors_loop S fm self errors (pretty @ map Entry es)
                              rest)))))"
  by pat_completeness auto

lemma getitem_size:
  "getitem fs k = Inr (SerializerField f n) \<Longrightarrow> size n < size_list (size_prod (\<lambda>_. 0) size) fs"
  by (induction fs) (auto simp: getitem_def split: if_splits option.splits)

lemma fields_size: "size_list (size_prod (\<lambda>_. 0) size) (fields s) < size s"
  by (cases s) simp

lemma fields_validated [simp]: "fields (validated s d) = fields s"
  by (simp add: validated_def)

termination get_sub_serializer_errors
proof (relation "inv_image (less_than <*lex*> less_than)
         (\<lambda>x. case x of
                Inl (S, fm, self, sub, error_type) \<Rightarrow> (size sub, 0)
              | Inr (S, fm, self, errors, pretty, keys) \<Rightarrow>
                  (size_list (size_prod (\<lambda>_. 0) size) (fields self), Suc (length keys)))",
       goal_cases)
  case 1
  show ?case by (intro wf_inv_image wf_lex_prod wf_less_than)
next
  case 2
  then show ?case using fields_size by (auto simp: less_Suc_eq)
next
  case 3
  then show ?case by simp
next
  case 4
  then show ?case by (simp add: getitem_size)
next
  case 5
  then show ?case by simp
next
  case 6
  then show ?case by simp
qed


declare get_sub_serializer_errors.simps [simp del]
declare build_pretty_errors_loop.simps [simp del]

definition process_sub_serializer ::
  "settings \<Rightarrow> field_map \<Rightarrow> serializer \<Rightarrow> pretty_entry list \<Rightarrow> nested \<Rightarrow> string
     \<Rightarrow> py_error + pretty_entry list" where
  "process_sub_serializer S fm self pretty sub error_type =
     wrap_sub_serializer_errors S self pretty
       (get_sub_serializer_errors S fm self sub error_type) error_type"



section \<open>When the classification raises nothing\<close>


















section \<open>Example inputs\<close>

text \<open>
  A field map with class names of the REST framework, and a few fields and serializers on
  which the properties below are evaluated.
\<close>

definition example_field_map :: field_map where
  "example_field_map =
     \<lparr>fm_boolean = [''BooleanField'', ''NullBooleanField''],
      fm_string = [''CharField'', ''EmailField'', ''RegexField'', ''SlugField'', ''URLField''],
      fm_numeric = [''IntegerField'', ''FloatField'', ''DecimalField''],
      fm_date = [(''DateTimeField'', ''iso-8601''), (''DateField'', ''iso-8601'')],
      fm_choice = [''ChoiceField'', ''MultipleChoiceField''],
      fm_file = [''FileField'', ''ImageField''],
      fm_composite = [''ListField'', ''DictField'', ''JSONField''],
      fm_relation = [''PrimaryKeyRelatedField'', ''SlugRelatedField'', ''ManyRelatedField'']\<rparr>"

definition plain_info :: "string \<Rightarrow> string \<Rightarrow> (string \<times> string) list \<Rightarrow> field_info" where
  "plain_info cls name templates =
     \<lparr>class_name = cls, field_name = name, error_messages = templates, validators = [],
      min_value = PNone, max_value = PNone, decimal_places = None, max_digits = None,
      max_length = PNone, min_length = PNone, slug_field = PNone,
      parent_data_value = PStr []\<rparr>"

definition price_field :: field where
  "price_field =
     Field ((plain_info ''DecimalField'' ''price''
               [(''required'', ''This field is required.''),
                (''max_whole_digits'', ''At most {max_whole_digits} digits.'')])
            \<lparr>min_value := PInt 0, decimal_places := Some 2, max_digits := Some 5\<rparr>) None"

definition tags_field :: field where
  "tags_field =
     Field ((plain_info ''SlugRelatedField'' ''tags''
               [(''required'', ''This field is required.''),
                (''does_not_exist'', ''No {slug_name} {value}.''),
                (''invalid'', ''Bad {value}.'')])
            \<lparr>slug_field := PStr ''name''\<rparr>) None"

definition tags_kwargs :: kwargs where
  "tags_kwargs =
     [''data_type'' \<mapsto> PStr ''list'', ''input_type'' \<mapsto> PStr ''list'',
      ''pk_value'' \<mapsto> PList [PInt 1, PInt 2], ''slug_name'' \<mapsto> PStr ''name'',
      ''value'' \<mapsto> PList [PInt 1, PInt 2]]"

definition plain_state :: "pyval \<Rightarrow> ser_state" where
  "plain_state d =
     \<lparr>initial_data = d, registered_errors = Map.empty,
      FIELD_VALIDATION_ERRORS = Map.empty, NON_FIELD_ERRORS = Map.empty,
      methods = Map.empty\<rparr>"

definition tags_serializer :: serializer where
  "tags_serializer =
     Serializer (plain_state (PDict [(''tags'', PList [PInt 1, PInt 2])]))
       [(''tags'', PlainField tags_field)] (\<lambda>d. ([], []))"

definition title_field :: field where
  "title_field =
     Field ((plain_info ''CharField'' ''title''
               [(''required'', ''This field is required.''),
                (''blank'', ''May not be blank.''),
                (''max_length'', ''At most {max_length} characters.''),
                (''too_long'', ''At most {max_length} characters.'')])
            \<lparr>max_length := PInt 5\<rparr>) None"

definition title_serializer :: serializer where
  "title_serializer =
     Serializer (plain_state (PDict [(''title'', PStr ''abcdefg'')]))
       [(''title'', PlainField title_field)] (\<lambda>d. ([], []))"

definition title_kwargs :: kwargs where
  "title_kwargs =
     [''data_type'' \<mapsto> PStr ''str'', ''input_type'' \<mapsto> PStr ''str'',
      ''max_length'' \<mapsto> PInt 5, ''min_length'' \<mapsto> PNone,
      ''value'' \<mapsto> PStr ''abcdefg'']"

definition example_settings :: settings where
  "example_settings =
     \<lparr>FRIENDLY_FIELD_ERRORS =
        [''CharField'' \<mapsto>
           [''required'' \<mapsto> PInt 2007, ''blank'' \<mapsto> PInt 2031, ''max_length'' \<mapsto> PInt 2041],
         ''DecimalField'' \<mapsto> [''required'' \<mapsto> PInt 2007, ''invalid'' \<mapsto> PInt 2061],
         ''SlugRelatedField'' \<mapsto> [''required'' \<mapsto> PInt 2007, ''does_not_exist'' \<mapsto> PInt 2151]],
      FRIENDLY_VALIDATOR_ERRORS = [''UniqueValidator'' \<mapsto> PInt 3001, ''is_even'' \<mapsto> PInt 3002],
      FRIENDLY_NON_FIELD_ERRORS = [''invalid'' \<mapsto> PInt 1001],
      INVALID_DATA_MESSAGE = ''Invalid data. Expected a dictionary, but got {data_type}.'',
      VALIDATION_FAILED_CODE = PInt 1000,
      VALIDATION_FAILED_MESSAGE = ''Validation Failed''\<rparr>"

definition when_field :: field where
  "when_field =
     Field (plain_info ''DateTimeField'' ''when''
              [(''required'', ''This field is required.''),
               (''invalid'', ''Datetime has wrong format. Use {format}.''),
               (''make_aware'', ''Invalid datetime for the timezone {timezone}.''),
               (''overflow'', ''Datetime value out of range.'')]) None"

definition when_serializer :: serializer where
  "when_serializer =
     Serializer (plain_state (PDict [(''when'', PStr ''9999-12-31T23:59:59+14:00'')]))
       [(''when'', PlainField when_field)] (\<lambda>d. ([], []))"

definition is_even :: validator where
  "is_even =
     \<lparr>v_name = ''is_even'', wants_value = True, wants_field = False,
      v_call = (\<lambda>arg. case arg of
                  Some (PInt i) \<Rightarrow> if even i then Returns
                                 else Raises (ValidationError ''Must be even.'')
                | _ \<Rightarrow> Raises TypeError)\<rparr>"

definition age_field :: field where
  "age_field =
     Field ((plain_info ''IntegerField'' ''age''
               [(''required'', ''This field is required.''),
                (''invalid'', ''A valid integer is required.''),
                (''max_value'', ''At most {max_value}.'')])
            \<lparr>validators := [is_even], max_value := PInt 150\<rparr>) None"

definition age_serializer :: serializer where
  "age_serializer =
     Serializer (plain_state (PDict [(''age'', PInt 3)]))
       [(''age'', PlainField age_field)] (\<lambda>d. ([], []))"

definition street_field :: field where
  "street_field =
     Field (plain_info ''CharField'' ''street''
              [(''required'', ''This field is required.''),
               (''blank'', ''May not be blank.'')]) None"

definition address_field :: field where
  "address_field =
     Field (plain_info ''AddressSerializer'' ''address''
              [(''required'', ''This field is required.''),
               (''null'', ''This field may not be null.''),
               (''invalid'', ''Invalid data. Expected a dictionary, but got {datatype}.'')]) None"

definition address_serializer :: serializer where
  "address_serializer =
     Serializer (plain_state PNone)
       [(''street'', PlainField street_field)]
       (\<lambda>d. ([(''street'', [''This field is required.'']),
                 (''non_field_errors'', [''Addresses need a street.''])], []))"

definition profile_serializer :: "pyval \<Rightarrow> serializer" where
  "profile_serializer payload =
     Serializer (plain_state payload)
       [(''address'', SerializerField address_field (Friendly address_serializer))]
       (\<lambda>d. ([], []))"

definition visits_field :: field where
  "visits_field =
     Field (plain_info ''ListSerializer'' ''visits''
              [(''required'', ''This field is required.'')]) None"

definition visits_errors :: "pyval \<Rightarrow> sub_errors" where
  "visits_errors d =
     ErrorList
       [\<lparr>errors_item = Some [Entry \<lparr>code = PInt 2007, field = Some ''day'',
                                    message = ''This field is required.''\<rparr>,
                             Entry \<lparr>code = PInt 7, field = None, message = ''Closed.''\<rparr>],
         non_field_errors_item = None\<rparr>,
        \<lparr>errors_item = None, non_field_errors_item = Some [''Too many visits.'']\<rparr>]"

definition diary_serializer :: serializer where
  "diary_serializer =
     Serializer (plain_state (PDict [(''visits'', PList [PDict [], PDict []])]))
       [(''visits'', SerializerField visits_field (Opaque visits_errors))]
       (\<lambda>d. ([], []))"






section \<open>Properties\<close>

subsection \<open>Parameter reconstruction for numeric fields\<close>

text \<open>
  C9. For a field whose class is in the numeric category (and in neither of the two
  categories tested before it) and for every submitted value \<open>v\<close>,
  \<^verbatim>\<open>get_field_kwargs\<close> returns keyword arguments that hold \<open>min_value\<close>,
  \<open>max_value\<close>, \<open>decimal_places\<close>, \<open>max_decimal_places\<close> and \<open>max_digits\<close> of the
  field, \<open>data_type\<close> and \<open>input_type\<close> both equal to the type name of \<open>v\<close>, and
  \<open>max_whole_digits = max_digits - decimal_places\<close> exactly when both are known; without
  one of them the key is absent.
\<close>

theorem get_field_kwargs_numeric:
  assumes "class_name (info fld) \<notin> set (fm_boolean fm)"
    and "class_name (info fld) \<notin> set (fm_string fm)"
    and "class_name (info fld) \<in> set (fm_numeric fm)"
  shows "\<exists>kw. get_field_kwargs fm fld v = Inr kw
            \<and> kw ''min_value'' = Some (min_value (info fld))
            \<and> kw ''max_value'' = Some (max_value (info fld))
            \<and> kw ''decimal_places'' = Some (int_opt (decimal_places (info fld)))
            \<and> kw ''max_decimal_places'' = Some (int_opt (decimal_places (info fld)))
            \<and> kw ''max_digits'' = Some (int_opt (max_digits (info fld)))
            \<and> kw ''data_type'' = Some (PStr (type_name v))
            \<and> kw ''input_type'' = Some (PStr (type_name v))
            \<and> kw ''max_whole_digits'' =
                (case (max_digits (info fld), decimal_places (info fld)) of
                   (Some md, Some dp) \<Rightarrow> Some (PInt (md - dp))
                 | _ \<Rightarrow> None)"
  using assms
  by (simp add: get_field_kwargs_def update_def Let_def split: option.split)

theorem get_field_kwargs_numeric_witness:
  "\<exists>kw. get_field_kwargs example_field_map price_field (PStr ''12345.6'') = Inr kw
        \<and> kw ''min_value'' = Some (PInt 0)
        \<and> kw ''max_digits'' = Some (PInt 5)
        \<and> kw ''data_type'' = Some (PStr ''str'')
        \<and> kw ''max_whole_digits'' = Some (PInt 3)"
  using get_field_kwargs_numeric [of price_field example_field_map "PStr ''12345.6''"]
  by (auto simp: example_field_map_def price_field_def plain_info_def int_opt_def)

subsection \<open>The handler rebinds \<^verbatim>\<open>kwargs['value']\<close>\<close>

lemma dne_loop_False:
  "dne_loop t m kw vs = Inr (False, kw') \<Longrightarrow>
     kw' = (if vs = [] then kw else kw(''value'' \<mapsto> last vs))"
proof (induction vs arbitrary: kw)
  case Nil
  then show ?case by simp
next
  case (Cons v vs)
  from Cons.prems have "dne_loop t m (kw(''value'' \<mapsto> v)) vs = Inr (False, kw')"
    by (simp add: Let_def split: sum.splits if_splits)
  from Cons.IH [OF this] show ?case by (auto simp: fun_eq_iff)
qed

lemma size_element: "x \<in> set vs \<Longrightarrow> size x < size (PList vs)"
  by (induction vs) auto

lemma not_own_element: "x \<in> set vs \<Longrightarrow> x \<noteq> PList vs"
  using size_element by blast

text \<open>
  C10. \<^verbatim>\<open>does_not_exist_many_to_many_handler\<close> writes into the dictionary that
  \<^verbatim>\<open>find_key\<close> passed it. When the reconstructed value is a non-empty list and the
  handler returns false, the dictionary it leaves is the one it was given with
  \<open>value\<close> bound to the last element of the list, which is not the list; and the rest
  of the pass of \<^verbatim>\<open>find_key\<close> (the format of the \<open>does_not_exist\<close> template that
  follows, and every later key) runs on that dictionary.
\<close>

theorem handler_rebinds_value:
  assumes "kwargs ''value'' = Some (PList vs)"
    and "vs \<noteq> []"
    and "does_not_exist_many_to_many_handler fld msg kwargs = Inr (False, kwargs')"
  shows "kwargs' = kwargs(''value'' \<mapsto> last vs)
       \<and> kwargs' ''value'' \<noteq> kwargs ''value''
       \<and> (\<exists>unformatted.
            getitem (error_messages (info fld)) ''does_not_exist'' = Inr unformatted
          \<and> find_key_loop fld msg kwargs (''does_not_exist'' # keys) =
              (case py_format unformatted (kwargs(''value'' \<mapsto> last vs)) of
                 Inl e \<Rightarrow> Inl e
               | Inr s \<Rightarrow>
                   if s = msg then Inr (Some ''does_not_exist'')
                   else find_key_loop fld msg (kwargs(''value'' \<mapsto> last vs)) keys))"
proof -
  from assms obtain unformatted
    where t: "getitem (error_messages (info fld)) ''does_not_exist'' = Inr unformatted"
      and l: "dne_loop unformatted msg kwargs vs = Inr (False, kwargs')"
    by (auto simp: does_not_exist_many_to_many_handler_def split: sum.splits)
  from dne_loop_False [OF l] assms(2)
  have k: "kwargs' = kwargs(''value'' \<mapsto> last vs)" by simp
  from assms(2) have "last vs \<noteq> PList vs" by (intro not_own_element) simp
  with k assms(1) have n: "kwargs' ''value'' \<noteq> kwargs ''value''" by simp
  from assms(1) have "is_list (kwargs ''value'')" by (simp add: is_list_def)
  with assms(3) t k
  have "find_key_loop fld msg kwargs (''does_not_exist'' # keys) =
          (case py_format unformatted (kwargs(''value'' \<mapsto> last vs)) of
             Inl e \<Rightarrow> Inl e
           | Inr s \<Rightarrow>
               if s = msg then Inr (Some ''does_not_exist'')
               else find_key_loop fld msg (kwargs(''value'' \<mapsto> last vs)) keys)"
    by simp
  with k n t show ?thesis by blast
qed

lemma tags_handler:
  "does_not_exist_many_to_many_handler tags_field ''Bad 2.'' tags_kwargs =
     Inr (False, tags_kwargs(''value'' \<mapsto> PInt 2))"
  by (simp add: does_not_exist_many_to_many_handler_def tags_field_def plain_info_def
      getitem_def tags_kwargs_def py_format_def render_field_def is_digit_def
      int_str_def nat_digits.simps digit_char_def)

theorem handler_rebinds_value_witness:
  "tags_kwargs ''value'' = Some (PList [PInt 1, PInt 2])
   \<and> does_not_exist_many_to_many_handler tags_field ''Bad 2.'' tags_kwargs =
       Inr (False, tags_kwargs(''value'' \<mapsto> PInt 2))
   \<and> find_key_loop tags_field ''Bad 2.'' tags_kwargs [''does_not_exist'', ''invalid''] =
       Inr (Some ''invalid'')
   \<and> find_key_loop tags_field ''Bad [1, 2].'' tags_kwargs [''invalid''] =
       Inr (Some ''invalid'')"
proof -
  have v: "tags_kwargs ''value'' = Some (PList [PInt 1, PInt 2])"
    by (simp add: tags_kwargs_def)
  have ne: "[PInt 1, PInt 2] \<noteq> []" by simp
  have a: "find_key_loop tags_field ''Bad 2.'' tags_kwargs [''does_not_exist'', ''invalid''] =
       Inr (Some ''invalid'')"
    using handler_rebinds_value [OF v ne tags_handler, of "[''invalid'']"]
    by (simp add: tags_field_def plain_info_def
      getitem_def tags_kwargs_def py_format_def render_field_def is_digit_def
      int_str_def nat_digits.simps digit_char_def is_list_def)
  have b: "find_key_loop tags_field ''Bad [1, 2].'' tags_kwargs [''invalid''] =
       Inr (Some ''invalid'')"
    by (simp add: tags_field_def plain_info_def
      getitem_def tags_kwargs_def py_format_def render_field_def is_digit_def
      int_str_def nat_digits.simps digit_char_def is_list_def)
  from v tags_handler a b show ?thesis by simp
qed

subsection \<open>A relation field with a list of identifiers\<close>

lemma render_field_isl:
  "dom kw = dom kw' \<Longrightarrow> isl (render_field kw name) = isl (render_field kw' name)"
  by (auto simp: render_field_def domIff split: option.splits)

lemma isl_map_sum [simp]: "isl (map_sum f g x) = isl x"
  by (cases x) simp_all

lemma py_format_from_isl:
  "dom kw = dom kw' \<Longrightarrow> isl (py_format_from kw st cs) = isl (py_format_from kw' st cs)"
proof (induction kw st cs rule: py_format_from.induct)
  case (1 kw)
  then show ?case by simp
next
  case (2 kw c cs)
  then show ?case by (simp split: list.splits del: py_format_from.simps(4))
next
  case (3 kw name)
  then show ?case by simp
next
  case (4 kw name c cs)
  from render_field_isl [OF "4.prems", of name] "4.IH" "4.prems"
  show ?case by (auto split: sum.splits)
qed

text \<open>Whether formatting raises does not depend on which value a key is bound to.\<close>

lemma py_format_rebind:
  assumes "py_format t (kw(k \<mapsto> v)) = Inr s"
  shows "\<exists>s'. py_format t (kw(k \<mapsto> v')) = Inr s'"
proof -
  have "dom (kw(k \<mapsto> v)) = dom (kw(k \<mapsto> v'))" by simp
  from py_format_from_isl [OF this, of None t] assms
  have "\<not> isl (py_format t (kw(k \<mapsto> v')))" by (simp add: py_format_def)
  then show ?thesis by (cases "py_format t (kw(k \<mapsto> v'))") simp_all
qed

lemma dne_loop_True:
  "v \<in> set vs \<Longrightarrow> py_format t (kw(''value'' \<mapsto> v)) = Inr m \<Longrightarrow>
     \<exists>kw'. dne_loop t m kw vs = Inr (True, kw')"
proof (induction vs arbitrary: kw)
  case Nil
  then show ?case by simp
next
  case (Cons u us)
  from py_format_rebind [OF Cons.prems(2)] obtain s
    where s: "py_format t (kw(''value'' \<mapsto> u)) = Inr s" by blast
  show ?case
  proof (cases "s = m")
    case True
    with s show ?thesis by simp
  next
    case False
    have "v \<noteq> u"
    proof
      assume "v = u"
      with Cons.prems(2) have "py_format t (kw(''value'' \<mapsto> u)) = Inr m" by blast
      with s False show False by simp
    qed
    with Cons.prems(1) have "v \<in> set us" by simp
    moreover from Cons.prems(2)
    have "py_format t ((kw(''value'' \<mapsto> u))(''value'' \<mapsto> v)) = Inr m"
      by (simp only: fun_upd_upd)
    ultimately obtain kw' where "dne_loop t m (kw(''value'' \<mapsto> u)) us = Inr (True, kw')"
      using Cons.IH by blast
    with s False show ?thesis by simp
  qed
qed

text \<open>
  C7. When the reconstructed \<open>value\<close> is a list of identifiers and formatting the
  \<open>does_not_exist\<close> template with some element of the list in place of \<open>value\<close>
  gives the message, the handler answers true and \<^verbatim>\<open>find_key\<close>, at the key
  \<open>does_not_exist\<close>, returns that key: whichever element it is, and whatever the
  elements before it are.
\<close>

theorem does_not_exist_any_identifier:
  assumes "map_of (error_messages (info fld)) ''does_not_exist'' = Some unformatted"
    and "kwargs ''value'' = Some (PList vs)"
    and "v \<in> set vs"
    and "py_format unformatted (kwargs(''value'' \<mapsto> v)) = Inr msg"
  shows "(\<exists>kwargs'. does_not_exist_many_to_many_handler fld msg kwargs = Inr (True, kwargs'))
       \<and> find_key_loop fld msg kwargs (''does_not_exist'' # keys) = Inr (Some ''does_not_exist'')"
proof -
  from dne_loop_True [OF assms(3) assms(4)] obtain kwargs'
    where "dne_loop unformatted msg kwargs vs = Inr (True, kwargs')" by blast
  with assms(1) assms(2)
  have h: "does_not_exist_many_to_many_handler fld msg kwargs = Inr (True, kwargs')"
    by (simp add: does_not_exist_many_to_many_handler_def getitem_def)
  from assms(2) have "is_list (kwargs ''value'')" by (simp add: is_list_def)
  with h show ?thesis by simp
qed

lemma tags_kwargs_reconstructed:
  "get_field_kwargs example_field_map tags_field (PList [PInt 1, PInt 2]) = Inr tags_kwargs"
  by (simp add: get_field_kwargs_def example_field_map_def tags_field_def plain_info_def
      tags_kwargs_def update_def fun_eq_iff)

theorem does_not_exist_any_identifier_witness:
  "find_key_loop tags_field ''No name 2.'' tags_kwargs [''does_not_exist'', ''invalid''] =
     Inr (Some ''does_not_exist'')
   \<and> find_key_loop tags_field ''No name 1.'' tags_kwargs [''does_not_exist'', ''invalid''] =
     Inr (Some ''does_not_exist'')"
proof -
  have t: "map_of (error_messages (info tags_field)) ''does_not_exist'' =
             Some ''No {slug_name} {value}.''"
    by (simp add: tags_field_def plain_info_def)
  have v: "tags_kwargs ''value'' = Some (PList [PInt 1, PInt 2])"
    by (simp add: tags_kwargs_def)
  have f1: "py_format ''No {slug_name} {value}.'' (tags_kwargs(''value'' \<mapsto> PInt 1)) =
              Inr ''No name 1.''"
    by (simp add: tags_kwargs_def py_format_def render_field_def is_digit_def
        int_str_def nat_digits.simps digit_char_def)
  have f2: "py_format ''No {slug_name} {value}.'' (tags_kwargs(''value'' \<mapsto> PInt 2)) =
              Inr ''No name 2.''"
    by (simp add: tags_kwargs_def py_format_def render_field_def is_digit_def
        int_str_def nat_digits.simps digit_char_def)
  have m1: "PInt 1 \<in> set [PInt 1, PInt 2]" and m2: "PInt 2 \<in> set [PInt 1, PInt 2]"
    by simp_all
  from does_not_exist_any_identifier [OF t v m2 f2, of "[''invalid'']"]
       does_not_exist_any_identifier [OF t v m1 f1, of "[''invalid'']"]
  show ?thesis by blast
qed

subsection \<open>\<^verbatim>\<open>find_key\<close>: the first key that matches\<close>

text \<open>
  One round of the loop when the handler does not run on a non-empty list: the handler
  is skipped, or it runs on the empty list and leaves the keyword arguments as they are.
\<close>

lemma find_key_loop_step:
  assumes "map_of (error_messages (info fld)) k = Some t"
    and "\<not> (k = ''does_not_exist'' \<and> (\<exists>v vs. kw ''value'' = Some (PList (v # vs))))"
  shows "find_key_loop fld m kw (k # keys) =
           (case py_format t kw of
              Inl e \<Rightarrow> Inl e
            | Inr s \<Rightarrow> if s = m then Inr (Some k) else find_key_loop fld m kw keys)"
proof (cases "k = ''does_not_exist'' \<and> is_list (kw ''value'')")
  case True
  then obtain ys where ys: "kw ''value'' = Some (PList ys)"
    by (auto simp: is_list_def split: option.splits pyval.splits)
  with True assms(2) have "ys = []" by (cases ys) auto
  with ys have "kw ''value'' = Some (PList [])" by simp
  with True assms(1)
  have "does_not_exist_many_to_many_handler fld m kw = Inr (False, kw)"
    by (simp add: does_not_exist_many_to_many_handler_def getitem_def)
  with True assms(1) show ?thesis by (auto simp: getitem_def)
next
  case False
  with assms(1) show ?thesis by (auto simp: getitem_def)
qed

lemma find_key_loop_Some_iff:
  assumes "distinct (map fst em)"
    and "error_messages (info fld) = em"
    and "\<not> (''does_not_exist'' \<in> fst ` set em \<and> (\<exists>v vs. kw ''value'' = Some (PList (v # vs))))"
    and "set xs \<subseteq> set em"
  shows "find_key_loop fld m kw (map fst xs) = Inr (Some k) \<longleftrightarrow>
           (\<exists>pre t post. xs = pre @ (k, t) # post \<and> py_format t kw = Inr m
              \<and> (\<forall>t' \<in> snd ` set pre. \<exists>s. py_format t' kw = Inr s \<and> s \<noteq> m))"
  using assms(4)
proof (induction xs)
  case Nil
  then show ?case by simp
next
  case (Cons x xs)
  obtain k0 t0 where x: "x = (k0, t0)" by (cases x)
  with Cons.prems assms(1,2) have t0: "map_of (error_messages (info fld)) k0 = Some t0"
    by simp
  from x Cons.prems assms(3)
  have "\<not> (k0 = ''does_not_exist'' \<and> (\<exists>v vs. kw ''value'' = Some (PList (v # vs))))"
    by force
  with t0 have step: "find_key_loop fld m kw (k0 # map fst xs) =
           (case py_format t0 kw of
              Inl e \<Rightarrow> Inl e
            | Inr s \<Rightarrow> if s = m then Inr (Some k0) else find_key_loop fld m kw (map fst xs))"
    by (rule find_key_loop_step)
  from Cons.prems have IH: "find_key_loop fld m kw (map fst xs) = Inr (Some k) \<longleftrightarrow>
           (\<exists>pre t post. xs = pre @ (k, t) # post \<and> py_format t kw = Inr m
              \<and> (\<forall>t' \<in> snd ` set pre. \<exists>s. py_format t' kw = Inr s \<and> s \<noteq> m))"
    using Cons.IH by simp
  show ?case
  proof (cases "py_format t0 kw")
    case (Inl e)
    have "\<not> (\<exists>pre t post. x # xs = pre @ (k, t) # post \<and> py_format t kw = Inr m
              \<and> (\<forall>t' \<in> snd ` set pre. \<exists>s. py_format t' kw = Inr s \<and> s \<noteq> m))"
      using Inl x by (auto simp: Cons_eq_append_conv)
    with Inl step x show ?thesis by simp
  next
    case (Inr s)
    show ?thesis
    proof (cases "s = m")
      case True
      have "(\<exists>pre t post. x # xs = pre @ (k, t) # post \<and> py_format t kw = Inr m
              \<and> (\<forall>t' \<in> snd ` set pre. \<exists>s. py_format t' kw = Inr s \<and> s \<noteq> m)) \<longleftrightarrow> k = k0"
        (is "?L \<longleftrightarrow> _")
      proof
        assume ?L
        then obtain pre t post where p: "x # xs = pre @ (k, t) # post" "py_format t kw = Inr m"
          "\<forall>t' \<in> snd ` set pre. \<exists>s. py_format t' kw = Inr s \<and> s \<noteq> m" by blast
        from p(1,3) Inr True x have "pre = []" by (cases pre) auto
        with p(1) x show "k = k0" by simp
      next
        assume "k = k0"
        with Inr True x have "x # xs = [] @ (k, t0) # xs \<and> py_format t0 kw = Inr m
          \<and> (\<forall>t' \<in> snd ` set []. \<exists>s. py_format t' kw = Inr s \<and> s \<noteq> m)" by simp
        then show ?L by blast
      qed
      with Inr True step x show ?thesis by auto
    next
      case False
      have "(\<exists>pre t post. x # xs = pre @ (k, t) # post \<and> py_format t kw = Inr m
              \<and> (\<forall>t' \<in> snd ` set pre. \<exists>s. py_format t' kw = Inr s \<and> s \<noteq> m)) \<longleftrightarrow>
            (\<exists>pre t post. xs = pre @ (k, t) # post \<and> py_format t kw = Inr m
              \<and> (\<forall>t' \<in> snd ` set pre. \<exists>s. py_format t' kw = Inr s \<and> s \<noteq> m))"
        (is "?L \<longleftrightarrow> ?R")
      proof
        assume ?L
        then obtain pre t post where p: "x # xs = pre @ (k, t) # post" "py_format t kw = Inr m"
          "\<forall>t' \<in> snd ` set pre. \<exists>s. py_format t' kw = Inr s \<and> s \<noteq> m" by blast
        from p(1,2) Inr False x obtain pre' where "pre = x # pre'"
          by (cases pre) auto
        with p show ?R by auto
      next
        assume ?R
        then obtain pre t post where p: "xs = pre @ (k, t) # post" "py_format t kw = Inr m"
          "\<forall>t' \<in> snd ` set pre. \<exists>s. py_format t' kw = Inr s \<and> s \<noteq> m" by blast
        from p Inr False x have "x # xs = (x # pre) @ (k, t) # post \<and> py_format t kw = Inr m
          \<and> (\<forall>t' \<in> snd ` set (x # pre). \<exists>s. py_format t' kw = Inr s \<and> s \<noteq> m)" by simp
        then show ?L by blast
      qed
      with Inr False step x IH show ?thesis by simp
    qed
  qed
qed

lemma find_key_loop_None_iff:
  assumes "distinct (map fst em)"
    and "error_messages (info fld) = em"
    and "\<not> (''does_not_exist'' \<in> fst ` set em \<and> (\<exists>v vs. kw ''value'' = Some (PList (v # vs))))"
    and "set xs \<subseteq> set em"
  shows "find_key_loop fld m kw (map fst xs) = Inr None \<longleftrightarrow>
           (\<forall>t \<in> snd ` set xs. \<exists>s. py_format t kw = Inr s \<and> s \<noteq> m)"
  using assms(4)
proof (induction xs)
  case Nil
  then show ?case by simp
next
  case (Cons x xs)
  obtain k0 t0 where x: "x = (k0, t0)" by (cases x)
  with Cons.prems assms(1,2) have t0: "map_of (error_messages (info fld)) k0 = Some t0"
    by simp
  from x Cons.prems assms(3)
  have "\<not> (k0 = ''does_not_exist'' \<and> (\<exists>v vs. kw ''value'' = Some (PList (v # vs))))"
    by force
  with t0 have step: "find_key_loop fld m kw (k0 # map fst xs) =
           (case py_format t0 kw of
              Inl e \<Rightarrow> Inl e
            | Inr s \<Rightarrow> if s = m then Inr (Some k0) else find_key_loop fld m kw (map fst xs))"
    by (rule find_key_loop_step)
  from Cons.prems Cons.IH step x show ?case
    by (cases "py_format t0 kw") auto
qed


text \<open>
  C3, as amended. Let the payload be a dictionary, let the reconstruction of the keyword
  arguments succeed, and let the handler have no non-empty list to run on (the field
  declares no key \<open>does_not_exist\<close>, or the reconstructed \<open>value\<close> is not a non-empty
  list). The keys of \<^verbatim>\<open>error_messages\<close> are distinct, as the keys of a dictionary
  are. Then \<^verbatim>\<open>find_key\<close> returns the key \<open>k\<close> exactly when \<open>k\<close> is the first
  declared key whose template formats to the message, every earlier template formatting
  without an exception to some other text, or when every template of the field formats
  to some other text and \<^verbatim>\<open>find_key\<close> on the child relation returns \<open>k\<close>; and it
  returns None exactly when every template of the field formats to some other text and
  the field has no child relation or \<^verbatim>\<open>find_key\<close> on the child relation returns None.
\<close>

theorem find_key_first_match:
  assumes "dict_get (initial_data (state self)) fname = Inr d"
    and "get_field_kwargs fm (Field f child) d = Inr kw"
    and "distinct (map fst (error_messages f))"
    and "\<not> (''does_not_exist'' \<in> fst ` set (error_messages f)
            \<and> (\<exists>v vs. kw ''value'' = Some (PList (v # vs))))"
  shows "(find_key fm self (Field f child) m fname = Inr (Some k) \<longleftrightarrow>
            (\<exists>pre t post. error_messages f = pre @ (k, t) # post \<and> py_format t kw = Inr m
               \<and> (\<forall>t' \<in> snd ` set pre. \<exists>s. py_format t' kw = Inr s \<and> s \<noteq> m))
          \<or> ((\<forall>t \<in> snd ` set (error_messages f). \<exists>s. py_format t kw = Inr s \<and> s \<noteq> m)
               \<and> (\<exists>c. child = Some c \<and> find_key fm self c m fname = Inr (Some k))))
       \<and> (find_key fm self (Field f child) m fname = Inr None \<longleftrightarrow>
            (\<forall>t \<in> snd ` set (error_messages f). \<exists>s. py_format t kw = Inr s \<and> s \<noteq> m)
          \<and> (child = None \<or> (\<exists>c. child = Some c \<and> find_key fm self c m fname = Inr None)))"
proof -
  let ?em = "error_messages f"
  let ?loop = "find_key_loop (Field f child) m kw (map fst ?em)"
  let ?first = "\<lambda>k. \<exists>pre t post. ?em = pre @ (k, t) # post \<and> py_format t kw = Inr m
               \<and> (\<forall>t' \<in> snd ` set pre. \<exists>s. py_format t' kw = Inr s \<and> s \<noteq> m)"
  let ?none = "\<forall>t \<in> snd ` set ?em. \<exists>s. py_format t kw = Inr s \<and> s \<noteq> m"
  have em: "error_messages (info (Field f child)) = ?em" by simp
  have some: "?loop = Inr (Some k') \<longleftrightarrow> ?first k'" for k'
    using find_key_loop_Some_iff [where em = ?em and fld = "Field f child" and xs = ?em
        and kw = kw and m = m and k = k'] assms(3,4)
    by simp
  have none: "?loop = Inr None \<longleftrightarrow> ?none"
    using find_key_loop_None_iff [where em = ?em and fld = "Field f child" and xs = ?em
        and kw = kw and m = m] assms(3,4)
    by simp
  have fk: "find_key fm self (Field f child) m fname =
          (case ?loop of
             Inl e \<Rightarrow> Inl e
           | Inr (Some key) \<Rightarrow> Inr (Some key)
           | Inr None \<Rightarrow>
               (case child of None \<Rightarrow> Inr None | Some c \<Rightarrow> find_key fm self c m fname))"
    using assms(1,2) by simp
  have goal: "(find_key fm self (Field f child) m fname = Inr (Some k) \<longleftrightarrow>
            ?loop = Inr (Some k)
          \<or> (?loop = Inr None
               \<and> (\<exists>c. child = Some c \<and> find_key fm self c m fname = Inr (Some k))))
       \<and> (find_key fm self (Field f child) m fname = Inr None \<longleftrightarrow>
            ?loop = Inr None
          \<and> (child = None \<or> (\<exists>c. child = Some c \<and> find_key fm self c m fname = Inr None)))"
    unfolding fk by (cases ?loop; cases child) (auto split: option.splits)
  show ?thesis using goal by (simp only: some none)
qed


lemma title_kwargs_reconstructed:
  "get_field_kwargs example_field_map title_field (PStr ''abcdefg'') = Inr title_kwargs"
  by (simp add: get_field_kwargs_def example_field_map_def title_field_def plain_info_def
      title_kwargs_def update_def fun_eq_iff)

lemmas format_simps =
  py_format_def render_field_def is_digit_def int_str_def nat_digits.simps digit_char_def

theorem find_key_first_match_witness:
  "find_key example_field_map title_serializer title_field ''At most 5 characters.'' ''title''
     = Inr (Some ''max_length'')
   \<and> find_key example_field_map title_serializer title_field ''Not a template.'' ''title''
     = Inr None"
proof -
  let ?f = "(plain_info ''CharField'' ''title''
               [(''required'', ''This field is required.''),
                (''blank'', ''May not be blank.''),
                (''max_length'', ''At most {max_length} characters.''),
                (''too_long'', ''At most {max_length} characters.'')])
            \<lparr>max_length := PInt 5\<rparr>"
  have tf: "title_field = Field ?f None" by (simp add: title_field_def)
  have h1: "dict_get (initial_data (state title_serializer)) ''title'' = Inr (PStr ''abcdefg'')"
    by (simp add: title_serializer_def plain_state_def dict_get_def)
  have h2: "get_field_kwargs example_field_map (Field ?f None) (PStr ''abcdefg'') = Inr title_kwargs"
    using title_kwargs_reconstructed by (simp add: tf)
  have h3: "distinct (map fst (error_messages ?f))"
    by (simp add: plain_info_def)
  have h4: "\<not> (''does_not_exist'' \<in> fst ` set (error_messages ?f)
            \<and> (\<exists>v vs. title_kwargs ''value'' = Some (PList (v # vs))))"
    by (simp add: plain_info_def)
  have em: "error_messages ?f =
      [(''required'', ''This field is required.''), (''blank'', ''May not be blank.'')]
      @ (''max_length'', ''At most {max_length} characters.'')
      # [(''too_long'', ''At most {max_length} characters.'')]"
    by (simp add: plain_info_def)
  have f1: "py_format ''This field is required.'' title_kwargs = Inr ''This field is required.''"
    by (simp add: format_simps title_kwargs_def)
  have f2: "py_format ''May not be blank.'' title_kwargs = Inr ''May not be blank.''"
    by (simp add: format_simps title_kwargs_def)
  have f3: "py_format ''At most {max_length} characters.'' title_kwargs =
              Inr ''At most 5 characters.''"
    by (simp add: format_simps title_kwargs_def)
  have pre: "\<forall>t' \<in> snd ` set [(''required'', ''This field is required.''),
                 (''blank'', ''May not be blank.'')].
               \<exists>s. py_format t' title_kwargs = Inr s \<and> s \<noteq> ''At most 5 characters.''"
    using f1 f2 by simp
  have all: "\<forall>t \<in> snd ` set (error_messages ?f).
               \<exists>s. py_format t title_kwargs = Inr s \<and> s \<noteq> ''Not a template.''"
    using f1 f2 f3 by (simp add: plain_info_def)
  from find_key_first_match [OF h1 h2 h3 h4, of "''At most 5 characters.''" "''max_length''"]
       em f3 pre
  have a: "find_key example_field_map title_serializer (Field ?f None)
             ''At most 5 characters.'' ''title'' = Inr (Some ''max_length'')"
    by blast
  from find_key_first_match [OF h1 h2 h3 h4, of "''Not a template.''" "''max_length''"] all
  have b: "find_key example_field_map title_serializer (Field ?f None)
             ''Not a template.'' ''title'' = Inr None"
    by blast
  from a b tf show ?thesis by simp
qed

text \<open>
  The claim as it was stated fails on a relation field with a list of identifiers: no
  template of the field, formatted with the reconstructed keyword arguments, is the
  message, and the field has no child relation, yet \<^verbatim>\<open>find_key\<close> returns a key.
\<close>

theorem find_key_first_match_counterexample:
  "dict_get (initial_data (state tags_serializer)) ''tags'' = Inr (PList [PInt 1, PInt 2])
   \<and> get_field_kwargs example_field_map tags_field (PList [PInt 1, PInt 2]) = Inr tags_kwargs
   \<and> error_messages (info tags_field) =
       [(''required'', ''This field is required.''),
        (''does_not_exist'', ''No {slug_name} {value}.''),
        (''invalid'', ''Bad {value}.'')]
   \<and> py_format ''This field is required.'' tags_kwargs = Inr ''This field is required.''
   \<and> py_format ''No {slug_name} {value}.'' tags_kwargs = Inr ''No name [1, 2].''
   \<and> py_format ''Bad {value}.'' tags_kwargs = Inr ''Bad [1, 2].''
   \<and> child_relation tags_field = None
   \<and> find_key example_field_map tags_serializer tags_field ''No name 1.'' ''tags''
       = Inr (Some ''does_not_exist'')"
proof -
  have c1: "dict_get (initial_data (state tags_serializer)) ''tags'' =
              Inr (PList [PInt 1, PInt 2])"
    by (simp add: tags_serializer_def plain_state_def dict_get_def)
  have c3: "error_messages (info tags_field) =
       [(''required'', ''This field is required.''),
        (''does_not_exist'', ''No {slug_name} {value}.''),
        (''invalid'', ''Bad {value}.'')]"
    by (simp add: tags_field_def plain_info_def)
  have c4: "py_format ''This field is required.'' tags_kwargs = Inr ''This field is required.''"
    by code_simp
  have c5: "py_format ''No {slug_name} {value}.'' tags_kwargs = Inr ''No name [1, 2].''"
    by code_simp
  have c6: "py_format ''Bad {value}.'' tags_kwargs = Inr ''Bad [1, 2].''"
    by code_simp
  have c7: "child_relation tags_field = None"
    by (simp add: tags_field_def)
  have c8: "find_key example_field_map tags_serializer tags_field ''No name 1.'' ''tags''
       = Inr (Some ''does_not_exist'')"
    by code_simp
  from c1 tags_kwargs_reconstructed c3 c4 c5 c6 c7 c8 show ?thesis by blast
qed

subsection \<open>\<^verbatim>\<open>register_error\<close>\<close>

lemma store_and_raise_not_ValueError:
  "store_and_raise self m c fname \<noteq> (self', ValueError text)"
  by (simp add: store_and_raise_def Let_def)

text \<open>
  C8, as amended. \<^verbatim>\<open>register_error\<close> raises a configuration error (a ValueError, with
  the store as it was) exactly when: the field name and the error code are both None; or
  the field name names no field; or the error code is None and the error key is None, or
  the field's class is not in the catalog, or the catalog of that class gives the key no
  code. In every other case it stores the entry and raises the validation failure; an
  error code given together with an error key is such a case, and the key is not looked
  at.
\<close>

theorem register_error_configuration_error:
  "((\<exists>text. register_error S self m fname key c = (self, ValueError text)) \<longleftrightarrow>
      (fname = None \<and> c = PNone)
    \<or> (\<exists>n. fname = Some n \<and> map_of (fields self) n = None)
    \<or> (\<exists>n fi. fname = Some n \<and> map_of (fields self) n = Some fi \<and> c = PNone
          \<and> (key = None
             \<or> FRIENDLY_FIELD_ERRORS S (class_name (info (the_field fi))) = None
             \<or> (\<exists>d k. FRIENDLY_FIELD_ERRORS S (class_name (info (the_field fi))) = Some d
                   \<and> key = Some k \<and> get d k = PNone))))
   \<and> ((\<forall>text. register_error S self m fname key c \<noteq> (self, ValueError text)) \<longrightarrow>
        (\<exists>c'. c' \<noteq> PNone \<and> (c \<noteq> PNone \<longrightarrow> c' = c)
           \<and> register_error S self m fname key c = store_and_raise self m c' fname))"
proof (cases fname)
  case None
  then show ?thesis
    by (auto simp: register_error_def store_and_raise_not_ValueError)
next
  case (Some n)
  show ?thesis
  proof (cases "map_of (fields self) n")
    case None
    with Some show ?thesis by (simp add: register_error_def)
  next
    case fi: (Some fi)
    show ?thesis
    proof (cases "c = PNone")
      case False
      with Some fi show ?thesis
        by (auto simp: register_error_def Let_def store_and_raise_not_ValueError)
    next
      case True
      show ?thesis
      proof (cases key)
        case None
        with Some fi True show ?thesis by (simp add: register_error_def)
      next
        case k: (Some k)
        show ?thesis
        proof (cases "FRIENDLY_FIELD_ERRORS S (class_name (info (the_field fi)))")
          case None
          with Some fi True k show ?thesis by (simp add: register_error_def)
        next
          case d: (Some d)
          with Some fi True k show ?thesis
            by (auto simp: register_error_def Let_def store_and_raise_not_ValueError)
        qed
      qed
    qed
  qed
qed

theorem register_error_configuration_error_witness:
  "register_error example_settings title_serializer ''Taken.'' (Some ''title'')
     (Some ''blank'') PNone
     = store_and_raise title_serializer ''Taken.'' (PInt 2031) (Some ''title'')
   \<and> (\<exists>text. register_error example_settings title_serializer ''Taken.'' (Some ''title'')
         (Some ''min_length'') PNone = (title_serializer, ValueError text))"
proof -
  let ?r = "register_error example_settings title_serializer ''Taken.'' (Some ''title'')"
  have cat: "FRIENDLY_FIELD_ERRORS example_settings ''CharField'' =
      Some [''required'' \<mapsto> PInt 2007, ''blank'' \<mapsto> PInt 2031, ''max_length'' \<mapsto> PInt 2041]"
    by (simp add: example_settings_def)
  have fi: "map_of (fields title_serializer) ''title'' = Some (PlainField title_field)"
    by (simp add: title_serializer_def)
  have cls: "class_name (info (the_field (PlainField title_field))) = ''CharField''"
    by (simp add: title_field_def plain_info_def)
  have "\<exists>text. ?r (Some ''min_length'') PNone = (title_serializer, ValueError text)"
    using register_error_configuration_error
      [of example_settings title_serializer "''Taken.''" "Some ''title''" "Some ''min_length''" PNone]
      cat fi cls
    by (simp add: get_def)
  moreover have "?r (Some ''blank'') PNone =
      store_and_raise title_serializer ''Taken.'' (PInt 2031) (Some ''title'')"
    by (simp add: register_error_def fi Let_def title_field_def plain_info_def cat get_def)
  ultimately show ?thesis by blast
qed

text \<open>
  The claim as it was stated fails when an error key and an error code are both given: the
  number of arguments supplied is two, and the registration succeeds with the code.
\<close>

theorem register_error_configuration_error_counterexample:
  "snd (register_error example_settings title_serializer ''Taken.'' (Some ''title'')
          (Some ''blank'') (PInt 42)) = ValidationError ''Taken._42_title''
   \<and> registered_errors
        (state (fst (register_error example_settings title_serializer ''Taken.''
                       (Some ''title'') (Some ''blank'') (PInt 42)))) ''Taken._42_title''
       = Some \<lparr>code = PInt 42, field = Some ''title'', message = ''Taken.''\<rparr>"
  by (simp add: register_error_def title_serializer_def store_and_raise_def composite_key_def
      Let_def int_str_def nat_digits.simps digit_char_def)

subsection \<open>Registered errors\<close>

lemma register_error_stores:
  assumes "register_error S self m fname key c = (self', ValidationError k)"
  shows "\<exists>c'. c' \<noteq> PNone \<and> (c \<noteq> PNone \<longrightarrow> c' = c)
           \<and> (c = PNone \<longrightarrow>
                (\<exists>n fi d kk. fname = Some n \<and> map_of (fields self) n = Some fi
                   \<and> FRIENDLY_FIELD_ERRORS S (class_name (info (the_field fi))) = Some d
                   \<and> key = Some kk \<and> c' = get d kk))
           \<and> store_and_raise self m c' fname = (self', ValidationError k)"
proof (cases fname)
  case None
  with assms show ?thesis
    by (auto simp: register_error_def split: if_splits)
next
  case (Some n)
  with assms show ?thesis
    by (auto simp: register_error_def Let_def split: if_splits option.splits)
qed

text \<open>
  C2. When \<^verbatim>\<open>register_error\<close> gets past its configuration checks, it raises the
  validation failure whose message is the composite key of the message, the resolved
  code (the code given, or else the catalog's code for the key) and the field name; the
  store then maps that key to the entry of that code, field and message; and the field
  builder, for any field whatever, and the non-field builder return that entry for a raw
  message equal to the key. The field, its templates and its validators are not looked
  at: the result is the same for every field, field map and settings.
\<close>

theorem registered_error_returned_verbatim:
  assumes "register_error S self m fname key c = (self', ValidationError k)"
  shows "\<exists>c'. c' \<noteq> PNone \<and> (c \<noteq> PNone \<longrightarrow> c' = c)
           \<and> (c = PNone \<longrightarrow>
                (\<exists>n fi d kk. fname = Some n \<and> map_of (fields self) n = Some fi
                   \<and> FRIENDLY_FIELD_ERRORS S (class_name (info (the_field fi))) = Some d
                   \<and> key = Some kk \<and> c' = get d kk))
           \<and> k = composite_key m c' fname
           \<and> registered_errors (state self') k = Some \<lparr>code = c', field = fname, message = m\<rparr>
           \<and> (\<forall>S' fm fld. get_field_error_entry S' fm self' k fld =
                  Inr \<lparr>code = c', field = fname, message = m\<rparr>)
           \<and> (\<forall>S'. get_non_field_error_entry S' self' k =
                  Inr \<lparr>code = c', field = fname, message = m\<rparr>)"
proof -
  from register_error_stores [OF assms] obtain c'
    where c': "c' \<noteq> PNone" "c \<noteq> PNone \<longrightarrow> c' = c"
      "c = PNone \<longrightarrow>
         (\<exists>n fi d kk. fname = Some n \<and> map_of (fields self) n = Some fi
            \<and> FRIENDLY_FIELD_ERRORS S (class_name (info (the_field fi))) = Some d
            \<and> key = Some kk \<and> c' = get d kk)"
      and s: "store_and_raise self m c' fname = (self', ValidationError k)"
    by blast
  from s have k: "k = composite_key m c' fname"
    and r: "registered_errors (state self') k = Some \<lparr>code = c', field = fname, message = m\<rparr>"
    by (auto simp: store_and_raise_def Let_def)
  from r have "get_field_error_entry S' fm self' k fld =
                 Inr \<lparr>code = c', field = fname, message = m\<rparr>" for S' fm fld
    by (simp add: get_field_error_entry_def)
  moreover from r have "get_non_field_error_entry S' self' k =
                 Inr \<lparr>code = c', field = fname, message = m\<rparr>" for S'
    by (simp add: get_non_field_error_entry_def)
  ultimately show ?thesis using c' k r by blast
qed

theorem registered_error_returned_verbatim_witness:
  "snd (register_error example_settings when_serializer ''Too late.'' (Some ''when'') None
          (PInt 42)) = ValidationError ''Too late._42_when''
   \<and> get_field_error_entry example_settings example_field_map
        (fst (register_error example_settings when_serializer ''Too late.'' (Some ''when'') None
                (PInt 42)))
        ''Too late._42_when'' when_field
      = Inr \<lparr>code = PInt 42, field = Some ''when'', message = ''Too late.''\<rparr>
   \<and> get_non_field_error_entry example_settings
        (fst (register_error example_settings when_serializer ''Too late.'' (Some ''when'') None
                (PInt 42)))
        ''Too late._42_when''
      = Inr \<lparr>code = PInt 42, field = Some ''when'', message = ''Too late.''\<rparr>"
proof -
  let ?r = "register_error example_settings when_serializer ''Too late.'' (Some ''when'') None
              (PInt 42)"
  have raised: "snd ?r = ValidationError ''Too late._42_when''"
    by (simp add: register_error_def when_serializer_def store_and_raise_def composite_key_def
        Let_def int_str_def nat_digits.simps digit_char_def)
  then have "?r = (fst ?r, ValidationError ''Too late._42_when'')"
    by (simp add: prod_eq_iff)
  from registered_error_returned_verbatim [OF this] raised show ?thesis
    by auto
qed

subsection \<open>\<^verbatim>\<open>get_field_error_entry\<close>: the order of the sources\<close>

lemma find_validator_loop_first:
  "find_validator_loop self fld m (pre @ v # post) = Inr (Some v)"
  if "\<forall>u \<in> set pre. run_validator self u fld m = Inr False"
    and "run_validator self v fld m = Inr True"
  using that by (induction pre) simp_all

lemma find_validator_loop_None:
  "find_validator_loop self fld m vs = Inr None"
  if "\<forall>u \<in> set vs. run_validator self u fld m = Inr False"
  using that by (induction vs) simp_all

text \<open>
  C1, as amended. \<^verbatim>\<open>get_field_error_entry\<close> consults its sources in this order. A
  message that is a key of the store gives the stored entry. Otherwise, a non-empty key
  found by \<^verbatim>\<open>find_key\<close> gives the catalog's code for the field's class and that key
  (None when the catalog has none). Otherwise (no key, or the empty key) the first
  declared validator whose re-execution fails with the message gives the code of its
  name, from the serializer's table if that is true-valued and from the global table
  otherwise; failing that, the method \<^verbatim>\<open>validate_<field name>\<close> does, in the same way;
  and failing that, the entry has the catalog's code for the key, which is None when
  there is no key. Every entry not taken from the store carries the message and the
  field's name. No entry is returned exactly when \<^verbatim>\<open>find_key\<close> raises, or when no key
  was found and \<^verbatim>\<open>_run_validator\<close> raises on a re-executed validator (the value it
  asks for is not in the payload, or it raises something that is not a validation
  failure, or a validation failure from which no message can be read): the exception
  then leaves \<^verbatim>\<open>get_field_error_entry\<close>.
\<close>

theorem get_field_error_entry_priority:
  fixes S fm self m fld
  defines "r \<equiv> get_field_error_entry S fm self m fld"
    and "fname \<equiv> field_name (info fld)"
    and "cls \<equiv> class_name (info fld)"
    and "key \<equiv> find_key fm self fld m (field_name (info fld))"
    and "hook \<equiv> methods (state self) (''validate_'' @ field_name (info fld))"
    and "vcode \<equiv> \<lambda>v. if truthy (get (FIELD_VALIDATION_ERRORS (state self)) (v_name v))
                      then get (FIELD_VALIDATION_ERRORS (state self)) (v_name v)
                      else get (FRIENDLY_VALIDATOR_ERRORS S) (v_name v)"
  shows "(\<forall>e. registered_errors (state self) m = Some e \<longrightarrow> r = Inr e)
       \<and> (registered_errors (state self) m = None \<longrightarrow>
            (\<forall>k. key = Inr (Some k) \<and> k \<noteq> [] \<longrightarrow>
               r = Inr \<lparr>code = field_code S cls (Some k), field = Some fname, message = m\<rparr>)
          \<and> (\<forall>k pre v post. key = Inr k \<and> not_key k
                 \<and> validators (info fld) = pre @ v # post
                 \<and> (\<forall>u \<in> set pre. run_validator self u fld m = Inr False)
                 \<and> run_validator self v fld m = Inr True \<longrightarrow>
               r = Inr \<lparr>code = vcode v, field = Some fname, message = m\<rparr>)
          \<and> (\<forall>k v. key = Inr k \<and> not_key k
                 \<and> (\<forall>u \<in> set (validators (info fld)). run_validator self u fld m = Inr False)
                 \<and> hook = Some v \<and> run_validator self v fld m = Inr True \<longrightarrow>
               r = Inr \<lparr>code = vcode v, field = Some fname, message = m\<rparr>)
          \<and> (\<forall>k. key = Inr k \<and> not_key k
                 \<and> (\<forall>u \<in> set (validators (info fld)). run_validator self u fld m = Inr False)
                 \<and> (hook = None \<or> (\<exists>v. hook = Some v \<and> run_validator self v fld m = Inr False))
                 \<longrightarrow>
               r = Inr \<lparr>code = field_code S cls k, field = Some fname, message = m\<rparr>)
          \<and> field_code S cls None = PNone
          \<and> (\<forall>e. r = Inr e \<longrightarrow> field e = Some fname \<and> message e = m)
          \<and> (\<forall>err. r = Inl err \<longleftrightarrow>
                 key = Inl err
               \<or> (\<exists>k. key = Inr k \<and> not_key k
                     \<and> (find_validator self fld m = Inl err
                        \<or> (find_validator self fld m = Inr None
                            \<and> (\<exists>v. hook = Some v \<and> run_validator self v fld m = Inl err))))))"
    (is "?stored \<and> (?reg \<longrightarrow> ?c2 \<and> ?c3 \<and> ?c4 \<and> ?c5 \<and> ?c0 \<and> ?c6 \<and> ?c7)")
proof (rule conjI)
  show ?stored
    by (simp add: r_def get_field_error_entry_def)
next
  show "?reg \<longrightarrow> ?c2 \<and> ?c3 \<and> ?c4 \<and> ?c5 \<and> ?c0 \<and> ?c6 \<and> ?c7"
  proof (rule impI)
    assume reg: ?reg
    have unfold: "r =
      (case key of
         Inl e \<Rightarrow> Inl e
       | Inr k \<Rightarrow>
           if not_key k then
             (case find_validator self fld m of
                Inl e \<Rightarrow> Inl e
              | Inr (Some v) \<Rightarrow> Inr \<lparr>code = vcode v, field = Some fname, message = m\<rparr>
              | Inr None \<Rightarrow>
                  (case hook of
                     None \<Rightarrow> Inr \<lparr>code = field_code S cls k, field = Some fname, message = m\<rparr>
                   | Some v \<Rightarrow>
                       (case run_validator self v fld m of
                          Inl e \<Rightarrow> Inl e
                        | Inr True \<Rightarrow> Inr \<lparr>code = vcode v, field = Some fname, message = m\<rparr>
                        | Inr False \<Rightarrow>
                            Inr \<lparr>code = field_code S cls k, field = Some fname, message = m\<rparr>)))
           else Inr \<lparr>code = field_code S cls k, field = Some fname, message = m\<rparr>)"
      unfolding r_def key_def hook_def vcode_def fname_def cls_def get_field_error_entry_def
        Let_def validator_code_def py_or_def
      using reg by simp
    have c2: ?c2
      by (simp add: unfold not_key_def)
    have c3: ?c3
    proof (intro allI impI)
      fix k pre v post
      assume a: "key = Inr k \<and> not_key k
                 \<and> validators (info fld) = pre @ v # post
                 \<and> (\<forall>u \<in> set pre. run_validator self u fld m = Inr False)
                 \<and> run_validator self v fld m = Inr True"
      then have "find_validator self fld m = Inr (Some v)"
        by (simp add: find_validator_def find_validator_loop_first)
      with a show "r = Inr \<lparr>code = vcode v, field = Some fname, message = m\<rparr>"
        by (simp add: unfold)
    qed
    have nov: "find_validator self fld m = Inr None"
      if "\<forall>u \<in> set (validators (info fld)). run_validator self u fld m = Inr False"
      using that by (simp add: find_validator_def find_validator_loop_None)
    have c4: ?c4
      using nov by (simp add: unfold)
    have c5: ?c5
    proof (intro allI impI)
      fix k
      assume a: "key = Inr k \<and> not_key k
                 \<and> (\<forall>u \<in> set (validators (info fld)). run_validator self u fld m = Inr False)
                 \<and> (hook = None \<or> (\<exists>v. hook = Some v \<and> run_validator self v fld m = Inr False))"
      with nov have "find_validator self fld m = Inr None" by blast
      with a show "r = Inr \<lparr>code = field_code S cls k, field = Some fname, message = m\<rparr>"
        by (cases hook) (auto simp: unfold)
    qed
    have c0: ?c0
      by (simp add: field_code_def split: option.splits)
    have c67: "?c6 \<and> ?c7"
    proof (cases key)
      case (Inl e)
      then show ?thesis by (simp add: unfold)
    next
      case k: (Inr k)
      show ?thesis
      proof (cases "not_key k")
        case False
        with k show ?thesis by (simp add: unfold)
      next
        case True
        show ?thesis
        proof (cases "find_validator self fld m")
          case (Inl e)
          with k True show ?thesis by (simp add: unfold)
        next
          case vo: (Inr vo)
          show ?thesis
          proof (cases vo)
            case (Some v)
            with k True vo show ?thesis by (simp add: unfold)
          next
            case None
            show ?thesis
            proof (cases hook)
              case hn: None
              with k True vo None show ?thesis by (simp add: unfold)
            next
              case hs: (Some v)
              show ?thesis
              proof (cases "run_validator self v fld m")
                case (Inl e)
                with k True vo None hs show ?thesis by (simp add: unfold)
              next
                case (Inr b)
                with k True vo None hs show ?thesis by (cases b) (simp_all add: unfold)
              qed
            qed
          qed
        qed
      qed
    qed
    from c2 c3 c4 c5 c0 c67 show "?c2 \<and> ?c3 \<and> ?c4 \<and> ?c5 \<and> ?c0 \<and> ?c6 \<and> ?c7"
      by (intro conjI) (erule conjunct1 conjunct2 | assumption)+
  qed
qed


theorem get_field_error_entry_priority_witness:
  "get_field_error_entry example_settings example_field_map age_serializer
     ''Must be even.'' age_field
   = Inr \<lparr>code = PInt 3002, field = Some ''age'', message = ''Must be even.''\<rparr>"
proof -
  have reg: "registered_errors (state age_serializer) ''Must be even.'' = None"
    by (simp add: age_serializer_def plain_state_def)
  have key: "find_key example_field_map age_serializer age_field ''Must be even.''
               (field_name (info age_field)) = Inr None"
    by code_simp
  have vs: "validators (info age_field) = [] @ is_even # []"
    by (simp add: age_field_def plain_info_def)
  have run: "run_validator age_serializer is_even age_field ''Must be even.'' = Inr True"
    by code_simp
  have name: "field_name (info age_field) = ''age''"
    by (simp add: age_field_def plain_info_def)
  have vcode: "get (FIELD_VALIDATION_ERRORS (state age_serializer)) (v_name is_even) = PNone"
    "get (FRIENDLY_VALIDATOR_ERRORS example_settings) (v_name is_even) = PInt 3002"
    by (simp_all add: age_serializer_def plain_state_def example_settings_def is_even_def
        get_def)
  from get_field_error_entry_priority
         [where self = age_serializer and m = "''Must be even.''" and fld = age_field
            and S = example_settings and fm = example_field_map]
       reg
  have "\<forall>k pre v post.
          find_key example_field_map age_serializer age_field ''Must be even.''
            (field_name (info age_field)) = Inr k \<and> not_key k
          \<and> validators (info age_field) = pre @ v # post
          \<and> (\<forall>u \<in> set pre. run_validator age_serializer u age_field ''Must be even.'' = Inr False)
          \<and> run_validator age_serializer v age_field ''Must be even.'' = Inr True \<longrightarrow>
          get_field_error_entry example_settings example_field_map age_serializer
            ''Must be even.'' age_field
          = Inr \<lparr>code = (if truthy (get (FIELD_VALIDATION_ERRORS (state age_serializer)) (v_name v))
                          then get (FIELD_VALIDATION_ERRORS (state age_serializer)) (v_name v)
                          else get (FRIENDLY_VALIDATOR_ERRORS example_settings) (v_name v)),
                  field = Some (field_name (info age_field)), message = ''Must be even.''\<rparr>"
    by blast
  from this [rule_format, of None "[]" is_even "[]"] key vs run
  show ?thesis by (simp add: not_key_def vcode name)
qed

text \<open>
  The claim as it was stated fails where a template raises before the matching key is
  reached: the store does not hold the message, the message is the text of the field's
  \<open>overflow\<close> template, and \<^verbatim>\<open>get_field_error_entry\<close> returns no entry, because the
  template before it names a placeholder that the reconstructed keyword arguments of a
  date field do not have.
\<close>

theorem get_field_error_entry_priority_counterexample:
  "registered_errors (state when_serializer) ''Datetime value out of range.'' = None
   \<and> map_of (error_messages (info when_field)) ''overflow'' = Some ''Datetime value out of range.''
   \<and> get_field_error_entry example_settings example_field_map when_serializer
        ''Datetime value out of range.'' when_field
      = Inl (KeyError ''timezone'')"
proof -
  have a: "registered_errors (state when_serializer) ''Datetime value out of range.'' = None"
    by (simp add: when_serializer_def plain_state_def)
  have b: "map_of (error_messages (info when_field)) ''overflow'' =
             Some ''Datetime value out of range.''"
    by (simp add: when_field_def plain_info_def)
  have c: "find_key example_field_map when_serializer when_field
             ''Datetime value out of range.'' (field_name (info when_field))
           = Inl (KeyError ''timezone'')"
    by code_simp
  from a c have "get_field_error_entry example_settings example_field_map when_serializer
        ''Datetime value out of range.'' when_field = Inl (KeyError ''timezone'')"
    by (simp add: get_field_error_entry_def)
  with a b show ?thesis by simp
qed

subsection \<open>Flattening the errors of a nested serializer\<close>

lemma sub_errors_loop_map:
  "sub_errors_loop error_type result es = result @ map (default_field error_type) es"
  by (induction es arbitrary: result) simp_all

lemma process_sub_serializer_errors_eq:
  assumes "get_non_field_error_entries S self
             (case non_field_errors_item d of None \<Rightarrow> [] | Some ms \<Rightarrow> ms) = Inr nf"
  shows "process_sub_serializer_errors S self d error_type =
           Inr (map (default_field error_type)
                  (case errors_item d of None \<Rightarrow> [] | Some es \<Rightarrow> es) @ map Entry nf)"
  using assms
  by (cases "non_field_errors_item d")
     (auto simp: process_sub_serializer_errors_def sub_errors_loop_map Let_def
        get_non_field_error_entries_def)

lemma traverse_process_sub_serializer_errors:
  assumes "traverse (\<lambda>d. get_non_field_error_entries S self
              (case non_field_errors_item d of None \<Rightarrow> [] | Some ms \<Rightarrow> ms)) ds = Inr nfs"
  shows "traverse (\<lambda>d. process_sub_serializer_errors S self d error_type) ds =
           Inr (map (\<lambda>(d, nf). map (default_field error_type)
                       (case errors_item d of None \<Rightarrow> [] | Some es \<Rightarrow> es) @ map Entry nf)
                  (zip ds nfs))"
  using assms
proof (induction ds arbitrary: nfs)
  case Nil
  then show ?case by simp
next
  case (Cons d ds)
  from Cons.prems obtain nf rest
    where nf: "get_non_field_error_entries S self
                 (case non_field_errors_item d of None \<Rightarrow> [] | Some ms \<Rightarrow> ms) = Inr nf"
      and rest: "traverse (\<lambda>d. get_non_field_error_entries S self
                   (case non_field_errors_item d of None \<Rightarrow> [] | Some ms \<Rightarrow> ms)) ds = Inr rest"
      and nfs: "nfs = nf # rest"
    by (auto split: sum.splits)
  from process_sub_serializer_errors_eq [OF nf, of error_type] Cons.IH [OF rest] nfs
  show ?case by simp
qed

text \<open>
  C5. When the \<^verbatim>\<open>errors\<close> of the nested serializer are one dictionary (many = false),
  \<^verbatim>\<open>process_sub_serializer\<close> appends to \<^verbatim>\<open>pretty\<close> the wrapper with the code 2901, the
  parent field name and one list: the entries under \<^verbatim>\<open>'errors'\<close> in their order, each
  leaf entry with no field name given the parent field name and every other entry as it
  is, followed by the entries that the non-field builder makes of the messages under
  \<^verbatim>\<open>'non_field_errors'\<close>. When they are a list of dictionaries (many = true), it appends
  the wrapper with the code 2902, the parent field name and the list of the lists made of
  each dictionary in that same way. Both hold whenever the non-field builder returns.
\<close>

theorem nested_errors_flattened:
  "(get_sub_serializer_errors S fm self sub error_type = Inr (ErrorDict d)
      \<and> get_non_field_error_entries S self
           (case non_field_errors_item d of None \<Rightarrow> [] | Some ms \<Rightarrow> ms) = Inr nf
    \<longrightarrow> process_sub_serializer S fm self pretty sub error_type =
          Inr (pretty @
               [NestedErrors (PInt 2901) error_type
                  (map (default_field error_type)
                     (case errors_item d of None \<Rightarrow> [] | Some es \<Rightarrow> es) @ map Entry nf)]))
   \<and> (get_sub_serializer_errors S fm self sub error_type = Inr (ErrorList ds)
      \<and> traverse (\<lambda>d. get_non_field_error_entries S self
                    (case non_field_errors_item d of None \<Rightarrow> [] | Some ms \<Rightarrow> ms)) ds = Inr nfs
    \<longrightarrow> process_sub_serializer S fm self pretty sub error_type =
          Inr (pretty @
               [NestedListErrors (PInt 2902) error_type
                  (map (\<lambda>(d, nf). map (default_field error_type)
                          (case errors_item d of None \<Rightarrow> [] | Some es \<Rightarrow> es) @ map Entry nf)
                     (zip ds nfs))]))
   \<and> default_field error_type (Entry e) =
       Entry (e\<lparr>field := (case field e of None \<Rightarrow> Some error_type | Some n \<Rightarrow> Some n)\<rparr>)
   \<and> default_field error_type (NestedErrors c n es) = NestedErrors c n es
   \<and> default_field error_type (NestedListErrors c n ess) = NestedListErrors c n ess"
proof (intro conjI impI)
  assume "get_sub_serializer_errors S fm self sub error_type = Inr (ErrorDict d)
      \<and> get_non_field_error_entries S self
           (case non_field_errors_item d of None \<Rightarrow> [] | Some ms \<Rightarrow> ms) = Inr nf"
  then show "process_sub_serializer S fm self pretty sub error_type =
          Inr (pretty @
               [NestedErrors (PInt 2901) error_type
                  (map (default_field error_type)
                     (case errors_item d of None \<Rightarrow> [] | Some es \<Rightarrow> es) @ map Entry nf)])"
    by (simp add: process_sub_serializer_def wrap_sub_serializer_errors_def
        process_sub_serializer_errors_eq wrap_nested_errors_def)
next
  assume "get_sub_serializer_errors S fm self sub error_type = Inr (ErrorList ds)
      \<and> traverse (\<lambda>d. get_non_field_error_entries S self
                    (case non_field_errors_item d of None \<Rightarrow> [] | Some ms \<Rightarrow> ms)) ds = Inr nfs"
  then show "process_sub_serializer S fm self pretty sub error_type =
          Inr (pretty @
               [NestedListErrors (PInt 2902) error_type
                  (map (\<lambda>(d, nf). map (default_field error_type)
                          (case errors_item d of None \<Rightarrow> [] | Some es \<Rightarrow> es) @ map Entry nf)
                     (zip ds nfs))])"
    by (simp add: process_sub_serializer_def wrap_sub_serializer_errors_def
        traverse_process_sub_serializer_errors wrap_nested_errors_def)
next
  show "default_field error_type (Entry e) =
       Entry (e\<lparr>field := (case field e of None \<Rightarrow> Some error_type | Some n \<Rightarrow> Some n)\<rparr>)"
    by (cases "field e") simp_all
qed simp_all


theorem nested_errors_flattened_witness:
  "process_sub_serializer example_settings example_field_map
     (profile_serializer (PDict [(''address'', PDict [])])) []
     (Friendly address_serializer) ''address''
   = Inr [NestedErrors (PInt 2901) ''address''
            [Entry \<lparr>code = PInt 2007, field = Some ''street'',
                     message = ''This field is required.''\<rparr>,
             Entry \<lparr>code = PNone, field = Some ''address'',
                     message = ''Addresses need a street.''\<rparr>]]
   \<and> process_sub_serializer example_settings example_field_map diary_serializer []
       (Opaque visits_errors) ''visits''
     = Inr [NestedListErrors (PInt 2902) ''visits''
              [[Entry \<lparr>code = PInt 2007, field = Some ''day'',
                        message = ''This field is required.''\<rparr>,
                Entry \<lparr>code = PInt 7, field = Some ''visits'', message = ''Closed.''\<rparr>],
               [Entry \<lparr>code = PNone, field = None, message = ''Too many visits.''\<rparr>]]]"
proof -
  let ?d = "\<lparr>errors_item =
               Some [Entry \<lparr>code = PInt 2007, field = Some ''street'',
                             message = ''This field is required.''\<rparr>,
                     Entry \<lparr>code = PNone, field = None,
                             message = ''Addresses need a street.''\<rparr>],
             non_field_errors_item = None\<rparr>"
  let ?d1 = "\<lparr>errors_item = Some [Entry \<lparr>code = PInt 2007, field = Some ''day'',
                                    message = ''This field is required.''\<rparr>,
                             Entry \<lparr>code = PInt 7, field = None, message = ''Closed.''\<rparr>],
         non_field_errors_item = None\<rparr>"
  let ?d2 = "\<lparr>errors_item = None, non_field_errors_item = Some [''Too many visits.'']\<rparr>"
  have a1: "get_sub_serializer_errors example_settings example_field_map
              (profile_serializer (PDict [(''address'', PDict [])]))
              (Friendly address_serializer) ''address'' = Inr (ErrorDict ?d)"
    by code_simp
  have a2: "get_non_field_error_entries example_settings
              (profile_serializer (PDict [(''address'', PDict [])]))
              (case non_field_errors_item ?d of None \<Rightarrow> [] | Some ms \<Rightarrow> ms) = Inr []"
    by (simp add: get_non_field_error_entries_def)
  have b1: "get_sub_serializer_errors example_settings example_field_map diary_serializer
              (Opaque visits_errors) ''visits'' = Inr (ErrorList [?d1, ?d2])"
    by code_simp
  have b2: "traverse (\<lambda>d. get_non_field_error_entries example_settings diary_serializer
                    (case non_field_errors_item d of None \<Rightarrow> [] | Some ms \<Rightarrow> ms)) [?d1, ?d2]
            = Inr [[], [\<lparr>code = PNone, field = None, message = ''Too many visits.''\<rparr>]]"
    by code_simp
  note flat = nested_errors_flattened
    [where S = example_settings and fm = example_field_map and pretty = "[]"]
  from flat [where self = "profile_serializer (PDict [(''address'', PDict [])])"
             and sub = "Friendly address_serializer" and error_type = "''address''"
             and d = ?d and nf = "[]"] a1 a2
  have a: "process_sub_serializer example_settings example_field_map
     (profile_serializer (PDict [(''address'', PDict [])])) []
     (Friendly address_serializer) ''address''
   = Inr [NestedErrors (PInt 2901) ''address''
            (map (default_field ''address'')
               (case errors_item ?d of None \<Rightarrow> [] | Some es \<Rightarrow> es) @ map Entry [])]"
    by simp
  from flat [where self = diary_serializer and sub = "Opaque visits_errors"
             and error_type = "''visits''" and ds = "[?d1, ?d2]"
             and nfs = "[[], [\<lparr>code = PNone, field = None, message = ''Too many visits.''\<rparr>]]"]
       b1 b2
  have b: "process_sub_serializer example_settings example_field_map diary_serializer []
       (Opaque visits_errors) ''visits''
     = Inr [NestedListErrors (PInt 2902) ''visits''
              (map (\<lambda>(d, nf). map (default_field ''visits'')
                          (case errors_item d of None \<Rightarrow> [] | Some es \<Rightarrow> es) @ map Entry nf)
                 (zip [?d1, ?d2]
                    [[], [\<lparr>code = PNone, field = None, message = ''Too many visits.''\<rparr>]]))]"
    by simp
  from a b show ?thesis by simp
qed

subsection \<open>A nested serializer is entered only for a field the payload supplies\<close>

lemma process_sub_serializer_appends_wrapper:
  assumes "process_sub_serializer S fm self pretty sub error_type = Inr p"
  shows "(\<exists>es. p = pretty @ [NestedErrors (PInt 2901) error_type es])
       \<or> (\<exists>ess. p = pretty @ [NestedListErrors (PInt 2902) error_type ess])"
  using assms
  by (auto simp: process_sub_serializer_def wrap_sub_serializer_errors_def
      wrap_nested_errors_def split: sum.splits sub_errors.splits)

text \<open>
  C4. Let the key \<open>error_type\<close> of the raw error map name a field that is a nested
  serializer. If the payload contains \<open>error_type\<close>, the round of the loop of
  \<^verbatim>\<open>build_pretty_errors\<close> for that key is \<^verbatim>\<open>process_sub_serializer\<close>, whose result is
  \<^verbatim>\<open>pretty\<close> with one wrapper (code 2901 or 2902) appended, and the messages of the raw
  error map under that key are not read. If the payload does not contain it, the round
  classifies those messages with the field builder, as for any leaf field, and appends
  leaf entries only. If the payload cannot be asked (it is None or a number), the round
  raises.
\<close>

theorem nested_only_when_supplied:
  assumes "error_type \<noteq> ''non_field_errors''"
    and "map_of (fields self) error_type = Some (SerializerField f sub)"
  shows "(contains (initial_data (state self)) error_type = Inr True \<longrightarrow>
            build_pretty_errors_loop S fm self errors pretty (error_type # rest) =
              (case process_sub_serializer S fm self pretty sub error_type of
                 Inl e \<Rightarrow> Inl e
               | Inr p \<Rightarrow> build_pretty_errors_loop S fm self errors p rest)
          \<and> (\<forall>p. process_sub_serializer S fm self pretty sub error_type = Inr p \<longrightarrow>
                 (\<exists>es. p = pretty @ [NestedErrors (PInt 2901) error_type es])
               \<or> (\<exists>ess. p = pretty @ [NestedListErrors (PInt 2902) error_type ess])))
       \<and> (contains (initial_data (state self)) error_type = Inr False \<longrightarrow>
            build_pretty_errors_loop S fm self errors pretty (error_type # rest) =
              (case getitem errors error_type of
                 Inl e \<Rightarrow> Inl e
               | Inr msgs \<Rightarrow>
                   (case get_field_error_entries S fm self msgs f of
                      Inl e \<Rightarrow> Inl e
                    | Inr es \<Rightarrow>
                        build_pretty_errors_loop S fm self errors (pretty @ map Entry es) rest)))
       \<and> (\<forall>e. contains (initial_data (state self)) error_type = Inl e \<longrightarrow>
            build_pretty_errors_loop S fm self errors pretty (error_type # rest) = Inl e)"
proof -
  from assms(2) have g: "getitem (fields self) error_type = Inr (SerializerField f sub)"
    by (simp add: getitem_def)
  show ?thesis
  proof (intro conjI impI allI)
    assume "contains (initial_data (state self)) error_type = Inr True"
    with assms(1) g
    show "build_pretty_errors_loop S fm self errors pretty (error_type # rest) =
              (case process_sub_serializer S fm self pretty sub error_type of
                 Inl e \<Rightarrow> Inl e
               | Inr p \<Rightarrow> build_pretty_errors_loop S fm self errors p rest)"
      by (simp add: build_pretty_errors_loop.simps(2) process_sub_serializer_def
          split: sum.splits)
  next
    fix p
    assume "process_sub_serializer S fm self pretty sub error_type = Inr p"
    then show "(\<exists>es. p = pretty @ [NestedErrors (PInt 2901) error_type es])
               \<or> (\<exists>ess. p = pretty @ [NestedListErrors (PInt 2902) error_type ess])"
      by (rule process_sub_serializer_appends_wrapper)
  next
    assume "contains (initial_data (state self)) error_type = Inr False"
    with assms(1) g
    show "build_pretty_errors_loop S fm self errors pretty (error_type # rest) =
              (case getitem errors error_type of
                 Inl e \<Rightarrow> Inl e
               | Inr msgs \<Rightarrow>
                   (case get_field_error_entries S fm self msgs f of
                      Inl e \<Rightarrow> Inl e
                    | Inr es \<Rightarrow>
                        build_pretty_errors_loop S fm self errors (pretty @ map Entry es) rest))"
      by (simp add: build_pretty_errors_loop.simps(2) split: sum.splits)
  next
    fix e
    assume "contains (initial_data (state self)) error_type = Inl e"
    with assms(1) g
    show "build_pretty_errors_loop S fm self errors pretty (error_type # rest) = Inl e"
      by (simp add: build_pretty_errors_loop.simps(2))
  qed
qed

theorem nested_only_when_supplied_witness:
  "build_pretty_errors_loop example_settings example_field_map (profile_serializer (PDict []))
     [(''address'', [''This field is required.''])] [] [''address'']
   = Inr [Entry \<lparr>code = PNone, field = Some ''address'',
                  message = ''This field is required.''\<rparr>]
   \<and> build_pretty_errors_loop example_settings example_field_map
       (profile_serializer (PDict [(''address'', PDict [])]))
       [(''address'', [''This field is required.''])] [] [''address'']
     = Inr [NestedErrors (PInt 2901) ''address''
              [Entry \<lparr>code = PInt 2007, field = Some ''street'',
                       message = ''This field is required.''\<rparr>,
               Entry \<lparr>code = PNone, field = Some ''address'',
                       message = ''Addresses need a street.''\<rparr>]]"
proof -
  have ne: "''address'' \<noteq> ''non_field_errors''" by simp
  have f: "map_of (fields (profile_serializer payload)) ''address'' =
             Some (SerializerField address_field (Friendly address_serializer))" for payload
    by (simp add: profile_serializer_def)
  have absent: "contains (initial_data (state (profile_serializer (PDict [])))) ''address''
                  = Inr False"
    by (simp add: profile_serializer_def plain_state_def contains_def)
  have present: "contains (initial_data (state (profile_serializer
                    (PDict [(''address'', PDict [])])))) ''address'' = Inr True"
    by (simp add: profile_serializer_def plain_state_def contains_def)
  have leaf: "get_field_error_entries example_settings example_field_map
                (profile_serializer (PDict [])) [''This field is required.''] address_field
              = Inr [\<lparr>code = PNone, field = Some ''address'',
                       message = ''This field is required.''\<rparr>]"
    by code_simp
  have nested: "process_sub_serializer example_settings example_field_map
                  (profile_serializer (PDict [(''address'', PDict [])])) []
                  (Friendly address_serializer) ''address''
     = Inr [NestedErrors (PInt 2901) ''address''
              [Entry \<lparr>code = PInt 2007, field = Some ''street'',
                       message = ''This field is required.''\<rparr>,
               Entry \<lparr>code = PNone, field = Some ''address'',
                       message = ''Addresses need a street.''\<rparr>]]"
    by code_simp
  from nested_only_when_supplied [OF ne f, of "PDict []" example_settings example_field_map
         "[(''address'', [''This field is required.''])]" "[]" "[]"]
       absent leaf
  have a: "build_pretty_errors_loop example_settings example_field_map
     (profile_serializer (PDict []))
     [(''address'', [''This field is required.''])] [] [''address'']
   = Inr [Entry \<lparr>code = PNone, field = Some ''address'',
                  message = ''This field is required.''\<rparr>]"
    by (simp add: getitem_def build_pretty_errors_loop.simps(1))
  from nested_only_when_supplied [OF ne f, of "PDict [(''address'', PDict [])]"
         example_settings example_field_map
         "[(''address'', [''This field is required.''])]" "[]" "[]"]
       present nested
  have b: "build_pretty_errors_loop example_settings example_field_map
       (profile_serializer (PDict [(''address'', PDict [])]))
       [(''address'', [''This field is required.''])] [] [''address'']
     = Inr [NestedErrors (PInt 2901) ''address''
              [Entry \<lparr>code = PInt 2007, field = Some ''street'',
                       message = ''This field is required.''\<rparr>,
               Entry \<lparr>code = PNone, field = Some ''address'',
                       message = ''Addresses need a street.''\<rparr>]]"
    by (simp add: build_pretty_errors_loop.simps(1))
  from a b show ?thesis by simp
qed


subsection \<open>When the classification returns\<close>





































end
